theory Spec2Isabelle
  imports Complex_Main
begin

section \<open>Values of the source language\<close>

text \<open>
  An optional string of the source (\<open>string | undefined\<close>) is a \<open>string option\<close>.
  The source tests such values with \<open>!x\<close> and \<open>x || y\<close>: \<open>undefined\<close> and the empty
  string are falsy, every other string is truthy.
\<close>

definition truthy :: "string option \<Rightarrow> bool" where
  "truthy v = (case v of None \<Rightarrow> False | Some s \<Rightarrow> s \<noteq> [])"

text \<open>\<open>a || b\<close>: the left operand when it is truthy, the right operand as it is otherwise.\<close>

definition js_or :: "string option \<Rightarrow> string option \<Rightarrow> string option" where
  "js_or a b = (if truthy a then a else b)"

text \<open>The settlement of a promise: resolved with a value, or rejected with an error.\<close>

type_synonym error = string

datatype 'a outcome = Resolved 'a | Rejected error

section \<open>Data model of SlackGhost.ts\<close>

text \<open>The \<open>profile\<close> object of \<open>ISlackUser\<close>; every field is optional.\<close>

record slack_profile =
  display_name :: "string option"
  real_name :: "string option"
  image_original :: "string option"
  image_1024 :: "string option"
  image_512 :: "string option"
  image_192 :: "string option"
  image_72 :: "string option"
  image_48 :: "string option"

record ISlackUser =
  profile :: "slack_profile option"

text \<open>The JSON body of \<open>users.info\<close>, typed \<open>{user?: ISlackUser}\<close> in the source.\<close>

record response =
  user :: "ISlackUser option"

text \<open>
  The fields of class \<open>SlackGhost\<close>. \<open>userInfoLoading\<close> holds a request promise; a
  promise is identified by the index of the \<open>users.info\<close> request that created it.
  The collaborators \<open>main\<close> and \<open>intent\<close> are not data of the ghost: their effects
  are recorded in the \<open>world\<close> below.
\<close>

record SlackGhost =
  atime :: "rat option"
  userInfoCache :: "ISlackUser option"
  userInfoLoading :: "nat option"
  userId :: "string option"
  displayName :: "string option"
  avatarUrl :: "string option"

text \<open>The serialised entry \<open>{id, display_name, avatar_url}\<close>.\<close>

record entry =
  id :: "string option"
  entry_display_name :: "string option"
  avatar_url :: "string option"

text \<open>The event handed to \<open>update\<close> and the bridged room it arrived in.\<close>

record message =
  user_id :: string
  user_name :: "string option"

record BridgedRoom =
  AccessToken :: "string option"

text \<open>The file object passed to \<open>uploadContent\<close>, and a full HTTP response.\<close>

record upload_file =
  content :: string
  title :: string
  mimetype :: "string option"

record http_response =
  body :: string
  content_type :: "string option"

text \<open>The content object built by \<open>sendText\<close>.\<close>

record msg_content =
  msg_body :: string
  msgtype :: string
  formatted_body :: string
  format :: string

record StoreEvent =
  ev_roomId :: string
  ev_eventId :: string
  ev_slackRoomID :: string
  ev_slackEventTS :: nat

text \<open>Calls made on the puppet (\<open>this.intent\<close>), in the order they are issued.\<close>

datatype intent_call =
    SetDisplayName string
  | UploadContent upload_file
  | SetAvatarUrl "string option"
  | SendMessage string msg_content

text \<open>
  Everything the methods of one ghost read or change: the ghost itself, the counters
  of \<open>main\<close>, the requests sent, the calls on the puppet, the records handed to
  \<open>main.putUserToStore\<close> and to the event store, the clock in milliseconds and the due
  times of the pending \<open>setTimeout\<close> callbacks (each of them clears \<open>userInfoCache\<close>).
\<close>

record world =
  ghost :: SlackGhost
  remote_calls :: nat
  requests :: "(string \<times> string) list"
  media_gets :: "string list"
  intent_calls :: "intent_call list"
  store_puts :: "SlackGhost list"
  sent_messages :: nat
  events :: "StoreEvent list"
  clock :: nat
  timers :: "nat list"

text \<open>
  The answers of the outside world: the settlement of the \<open>k\<close>-th \<open>users.info\<close>
  request, of a puppet call, of an avatar download, of a store write. An error
  option is \<open>None\<close> when the call succeeds.
\<close>

record env =
  users_info :: "nat \<Rightarrow> response outcome"
  intent_setDisplayName :: "string \<Rightarrow> error option"
  intent_setAvatarUrl :: "string option \<Rightarrow> error option"
  client_uploadContent :: "upload_file \<Rightarrow> string option outcome"
  http_get :: "string \<Rightarrow> http_response outcome"
  putUserToStore :: "SlackGhost \<Rightarrow> error option"
  intent_sendMessage :: "string \<Rightarrow> msg_content \<Rightarrow> string outcome"
  upsertEvent :: "StoreEvent \<Rightarrow> error option"
  Slackdown_parse :: "string \<Rightarrow> string"

definition USER_CACHE_TIMEOUT :: nat where
  "USER_CACHE_TIMEOUT = 10 * 60 * 1000"

section \<open>Serialisation\<close>

definition fromEntry :: "entry \<Rightarrow> SlackGhost" where
  "fromEntry e =
     \<lparr>atime = None, userInfoCache = None, userInfoLoading = None,
      userId = id e, displayName = entry_display_name e, avatarUrl = avatar_url e\<rparr>"

definition toEntry :: "SlackGhost \<Rightarrow> entry" where
  "toEntry g = \<lparr>id = userId g, entry_display_name = displayName g, avatar_url = avatarUrl g\<rparr>"

definition bumpATime :: "world \<Rightarrow> world" where
  "bumpATime w = w\<lparr>ghost := (ghost w)\<lparr>atime := Some (of_nat (clock w) / 1000)\<rparr>\<rparr>"

section \<open>lookupUserInfo\<close>

text \<open>
  An \<open>async\<close> function runs up to its first \<open>await\<close> when it is called, and the rest
  when the awaited promise settles. \<open>lookupUserInfo\<close> has two awaits, both on
  \<open>this.userInfoLoading\<close>: the one of the call that issued the request (\<open>Fetcher\<close>)
  and the one of a call that found a request in flight (\<open>Joiner\<close>).
\<close>

datatype lookup_await = Fetcher | Joiner

datatype started = Returned "ISlackUser option" | Awaiting nat lookup_await

text \<open>Lines 108-130: the part of a call that runs before it is suspended.\<close>

definition lookupUserInfo_start :: "string \<Rightarrow> string \<Rightarrow> world \<Rightarrow> started \<times> world" where
  "lookupUserInfo_start slackUserId slackAccessToken w =
     (case userInfoCache (ghost w) of
        Some u \<Rightarrow> (Returned (Some u), w)
      | None \<Rightarrow>
          (case userInfoLoading (ghost w) of
             Some p \<Rightarrow> (Awaiting p Joiner, w)
           | None \<Rightarrow>
               (let p = length (requests w) in
                (Awaiting p Fetcher,
                 w\<lparr>remote_calls := remote_calls w + 1,
                   requests := requests w @ [(slackAccessToken, slackUserId)],
                   ghost := (ghost w)\<lparr>userInfoLoading := Some p\<rparr>\<rparr>))))"

text \<open>
  Lines 113-117 and 130-138: the part that runs when the awaited promise has settled
  with \<open>r\<close>. A rejection is thrown out of the call at the \<open>await\<close>.
\<close>

definition lookupUserInfo_resume ::
  "lookup_await \<Rightarrow> response outcome \<Rightarrow> world \<Rightarrow> (error + ISlackUser option) \<times> world" where
  "lookupUserInfo_resume k r w =
     (case r of
        Rejected e \<Rightarrow> (Inl e, w)
      | Resolved resp \<Rightarrow>
          (case k of
             Joiner \<Rightarrow> (Inr (user resp), w)
           | Fetcher \<Rightarrow>
               (case user resp of
                  None \<Rightarrow> (Inr None, w)
                | Some u \<Rightarrow>
                    (case profile u of
                       None \<Rightarrow> (Inr None, w)
                     | Some _ \<Rightarrow>
                         (Inr (Some u),
                          w\<lparr>ghost := (ghost w)\<lparr>userInfoCache := Some u, userInfoLoading := None\<rparr>,
                            timers := timers w @ [clock w + USER_CACHE_TIMEOUT]\<rparr>)))))"

text \<open>A started call, run to its end once its promise has settled.\<close>

definition lookupUserInfo_finish ::
  "env \<Rightarrow> started \<Rightarrow> world \<Rightarrow> (error + ISlackUser option) \<times> world" where
  "lookupUserInfo_finish env s w =
     (case s of
        Returned u \<Rightarrow> (Inr u, w)
      | Awaiting p k \<Rightarrow> lookupUserInfo_resume k (users_info env p) w)"

text \<open>One call with nothing else running between its start and its end.\<close>

definition lookupUserInfo ::
  "env \<Rightarrow> string \<Rightarrow> string \<Rightarrow> world \<Rightarrow> (error + ISlackUser option) \<times> world" where
  "lookupUserInfo env slackUserId slackAccessToken w =
     (case lookupUserInfo_start slackUserId slackAccessToken w of
        (s, w') \<Rightarrow> lookupUserInfo_finish env s w')"

text \<open>
  Several calls issued before the promise settles: each runs to its \<open>await\<close> in call
  order, then the continuations run in the order they were registered.
\<close>

fun lookupUserInfo_starts :: "(string \<times> string) list \<Rightarrow> world \<Rightarrow> started list \<times> world" where
  "lookupUserInfo_starts [] w = ([], w)"
| "lookupUserInfo_starts ((slackUserId, slackAccessToken) # cs) w =
     (case lookupUserInfo_start slackUserId slackAccessToken w of
        (s, w') \<Rightarrow> (case lookupUserInfo_starts cs w' of (ss, w'') \<Rightarrow> (s # ss, w'')))"

fun lookupUserInfo_finishes ::
  "env \<Rightarrow> started list \<Rightarrow> world \<Rightarrow> (error + ISlackUser option) list \<times> world" where
  "lookupUserInfo_finishes env [] w = ([], w)"
| "lookupUserInfo_finishes env (s # ss) w =
     (case lookupUserInfo_finish env s w of
        (r, w') \<Rightarrow> (case lookupUserInfo_finishes env ss w' of (rs, w'') \<Rightarrow> (r # rs, w'')))"

definition lookupUserInfo_concurrent ::
  "env \<Rightarrow> (string \<times> string) list \<Rightarrow> world \<Rightarrow> (error + ISlackUser option) list \<times> world" where
  "lookupUserInfo_concurrent env cs w =
     (case lookupUserInfo_starts cs w of (ss, w') \<Rightarrow> lookupUserInfo_finishes env ss w')"

text \<open>
  The passing of \<open>d\<close> milliseconds: every timer that has become due fires, and its
  callback (line 136) clears \<open>userInfoCache\<close>.
\<close>

definition elapse :: "nat \<Rightarrow> world \<Rightarrow> world" where
  "elapse d w =
     (let t = clock w + d in
      w\<lparr>clock := t,
        timers := filter (\<lambda>due. t < due) (timers w),
        ghost := (if list_ex (\<lambda>due. due \<le> t) (timers w)
                  then (ghost w)\<lparr>userInfoCache := None\<rparr> else ghost w)\<rparr>)"

section \<open>Display name\<close>

text \<open>Lines 69-71 of \<open>getDisplayname\<close>: the name carried by a looked-up user.\<close>

definition getDisplayname_result :: "ISlackUser option \<Rightarrow> string option" where
  "getDisplayname_result u =
     (case u of
        None \<Rightarrow> None
      | Some usr \<Rightarrow>
          (case profile usr of
             None \<Rightarrow> None
           | Some p \<Rightarrow> js_or (display_name p) (real_name p)))"

definition getDisplayname ::
  "env \<Rightarrow> string \<Rightarrow> string \<Rightarrow> world \<Rightarrow> (error + string option) \<times> world" where
  "getDisplayname env slackUserId slackAccessToken w =
     (case lookupUserInfo env slackUserId slackAccessToken w of
        (Inl e, w') \<Rightarrow> (Inl e, w')
      | (Inr u, w') \<Rightarrow> (Inr (getDisplayname_result u), w'))"

text \<open>
  Where a call of \<open>updateDisplayname\<close> is suspended after its synchronous part: it
  has returned, it awaits the user lookup, or it awaits \<open>intent.setDisplayName\<close>.
\<close>

datatype name_await = NameReturned | NameLookup started | NameSet string

text \<open>
  Lines 86-90: the test \<open>!displayName || this.displayName === displayName\<close> and, when
  it fails, the call of \<open>intent.setDisplayName\<close>.
\<close>

definition displayName_check :: "string option \<Rightarrow> world \<Rightarrow> name_await \<times> world" where
  "displayName_check resolved w =
     (case resolved of
        None \<Rightarrow> (NameReturned, w)
      | Some n \<Rightarrow>
          if n = [] \<or> displayName (ghost w) = Some n then (NameReturned, w)
          else (NameSet n, w\<lparr>intent_calls := intent_calls w @ [SetDisplayName n]\<rparr>))"

text \<open>
  Lines 90-92, once \<open>intent.setDisplayName\<close> has settled: the record is updated and
  handed to the store; the promise of the store is the result of the call.
\<close>

definition displayName_set :: "env \<Rightarrow> string \<Rightarrow> world \<Rightarrow> (error + unit) \<times> world" where
  "displayName_set env n w =
     (case intent_setDisplayName env n of
        Some e \<Rightarrow> (Inl e, w)
      | None \<Rightarrow>
          (let g = (ghost w)\<lparr>displayName := Some n\<rparr>;
               w' = w\<lparr>ghost := g, store_puts := store_puts w @ [g]\<rparr>
           in case putUserToStore env g of
                Some e \<Rightarrow> (Inl e, w')
              | None \<Rightarrow> (Inr (), w')))"

text \<open>Lines 86-92 run from the test to the end.\<close>

definition displayName_apply :: "env \<Rightarrow> string option \<Rightarrow> world \<Rightarrow> (error + unit) \<times> world" where
  "displayName_apply env resolved w =
     (case displayName_check resolved w of
        (NameSet n, w') \<Rightarrow> displayName_set env n w'
      | (_, w') \<Rightarrow> (Inr (), w'))"

text \<open>Lines 75-90: the synchronous part of \<open>updateDisplayname\<close>.\<close>

definition updateDisplayname_start :: "message \<Rightarrow> BridgedRoom \<Rightarrow> world \<Rightarrow> name_await \<times> world" where
  "updateDisplayname_start msg room w =
     (case AccessToken room of
        None \<Rightarrow> (NameReturned, w)
      | Some token \<Rightarrow>
          if token = [] then (NameReturned, w)
          else if truthy (user_name msg) then displayName_check (user_name msg) w
          else (case lookupUserInfo_start (user_id msg) token w of
                  (s, w') \<Rightarrow> (NameLookup s, w')))"

definition updateDisplayname_finish ::
  "env \<Rightarrow> name_await \<Rightarrow> world \<Rightarrow> (error + unit) \<times> world" where
  "updateDisplayname_finish env k w =
     (case k of
        NameReturned \<Rightarrow> (Inr (), w)
      | NameSet n \<Rightarrow> displayName_set env n w
      | NameLookup s \<Rightarrow>
          (case lookupUserInfo_finish env s w of
             (Inl e, w') \<Rightarrow> (Inl e, w')
           | (Inr u, w') \<Rightarrow> displayName_apply env (getDisplayname_result u) w'))"

definition updateDisplayname ::
  "env \<Rightarrow> message \<Rightarrow> BridgedRoom \<Rightarrow> world \<Rightarrow> (error + unit) \<times> world" where
  "updateDisplayname env msg room w =
     (case updateDisplayname_start msg room w of
        (k, w') \<Rightarrow> updateDisplayname_finish env k w')"

section \<open>Avatar\<close>

text \<open>Lines 97-104 of \<open>lookupAvatarUrl\<close>: the image chosen from a looked-up user.\<close>

definition lookupAvatarUrl_result :: "ISlackUser option \<Rightarrow> string option" where
  "lookupAvatarUrl_result u =
     (case u of
        None \<Rightarrow> None
      | Some usr \<Rightarrow>
          (case profile usr of
             None \<Rightarrow> None
           | Some p \<Rightarrow>
               js_or (image_original p)
                 (js_or (image_1024 p)
                   (js_or (image_512 p)
                     (js_or (image_192 p)
                       (js_or (image_72 p) (image_48 p)))))))"

definition lookupAvatarUrl ::
  "env \<Rightarrow> string \<Rightarrow> string \<Rightarrow> world \<Rightarrow> (error + string option) \<times> world" where
  "lookupAvatarUrl env slackUserId slackAccessToken w =
     (case lookupUserInfo env slackUserId slackAccessToken w of
        (Inl e, w') \<Rightarrow> (Inl e, w')
      | (Inr u, w') \<Rightarrow> (Inr (lookupAvatarUrl_result u), w'))"

text \<open>
  \<open>avatarUrl.match(/\/([^\/]+)$/)\<close>, group 1: the text after the last slash, when
  there is a slash and that text is not empty.
\<close>

definition shortname :: "string \<Rightarrow> string option" where
  "shortname url =
     (let s = rev (takeWhile (\<lambda>c. c \<noteq> CHR ''/'') (rev url))
      in if CHR ''/'' \<in> set url \<and> s \<noteq> [] then Some s else None)"

text \<open>
  Lines 220-229. The answer of the client stands for the reply with
  \<open>JSON.parse(response).content_uri\<close> taken; a reply that does not parse is a rejection.
\<close>

definition uploadContent :: "env \<Rightarrow> upload_file \<Rightarrow> world \<Rightarrow> (error + string option) \<times> world" where
  "uploadContent env file w =
     (let w' = w\<lparr>intent_calls := intent_calls w @ [UploadContent file]\<rparr>
      in case client_uploadContent env file of
           Rejected e \<Rightarrow> (Inl e, w')
         | Resolved content_uri \<Rightarrow> (Inr content_uri, w'))"

text \<open>Lines 148-171: what \<open>updateAvatar\<close> does with the looked-up image.\<close>

definition avatar_apply :: "env \<Rightarrow> string option \<Rightarrow> world \<Rightarrow> (error + unit) \<times> world" where
  "avatar_apply env resolved w =
     (case resolved of
        None \<Rightarrow> (Inr (), w)
      | Some url \<Rightarrow>
          if url = [] \<or> avatarUrl (ghost w) = Some url then (Inr (), w)
          else
            (case shortname url of
               None \<Rightarrow> (Inr (), w)
             | Some sn \<Rightarrow>
                 (let w1 = w\<lparr>media_gets := media_gets w @ [url]\<rparr>
                  in case http_get env url of
                       Rejected e \<Rightarrow> (Inl e, w1)
                     | Resolved resp \<Rightarrow>
                         (case uploadContent env
                                 \<lparr>content = body resp, title = sn, mimetype = content_type resp\<rparr> w1 of
                            (Inl e, w2) \<Rightarrow> (Inl e, w2)
                          | (Inr contentUri, w2) \<Rightarrow>
                              (let w3 = w2\<lparr>intent_calls := intent_calls w2 @ [SetAvatarUrl contentUri]\<rparr>
                               in case intent_setAvatarUrl env contentUri of
                                    Some e \<Rightarrow> (Inl e, w3)
                                  | None \<Rightarrow>
                                      (let g = (ghost w3)\<lparr>avatarUrl := Some url\<rparr>
                                       in (Inr (), w3\<lparr>ghost := g, store_puts := store_puts w3 @ [g]\<rparr>)))))))"

datatype avatar_await = AvatarReturned | AvatarLookup started

text \<open>Lines 142-147: the synchronous part of \<open>updateAvatar\<close>.\<close>

definition updateAvatar_start :: "message \<Rightarrow> BridgedRoom \<Rightarrow> world \<Rightarrow> avatar_await \<times> world" where
  "updateAvatar_start msg room w =
     (case AccessToken room of
        None \<Rightarrow> (AvatarReturned, w)
      | Some token \<Rightarrow>
          if token = [] then (AvatarReturned, w)
          else (case lookupUserInfo_start (user_id msg) token w of
                  (s, w') \<Rightarrow> (AvatarLookup s, w')))"

definition updateAvatar_finish ::
  "env \<Rightarrow> avatar_await \<Rightarrow> world \<Rightarrow> (error + unit) \<times> world" where
  "updateAvatar_finish env k w =
     (case k of
        AvatarReturned \<Rightarrow> (Inr (), w)
      | AvatarLookup s \<Rightarrow>
          (case lookupUserInfo_finish env s w of
             (Inl e, w') \<Rightarrow> (Inl e, w')
           | (Inr u, w') \<Rightarrow> avatar_apply env (lookupAvatarUrl_result u) w'))"

definition updateAvatar ::
  "env \<Rightarrow> message \<Rightarrow> BridgedRoom \<Rightarrow> world \<Rightarrow> (error + unit) \<times> world" where
  "updateAvatar env msg room w =
     (case updateAvatar_start msg room w of
        (k, w') \<Rightarrow> updateAvatar_finish env k w')"

section \<open>update\<close>

text \<open>
  Lines 55-65. \<open>Promise.all\<close> receives both calls already started: each has run its
  synchronous part, \<open>updateDisplayname\<close> first. An error of either is caught and
  logged, so \<open>update\<close> itself never fails. The two continuations write different
  fields of the ghost and share the user lookup only; they are run here with the
  display name first.
\<close>

definition update :: "env \<Rightarrow> message \<Rightarrow> BridgedRoom \<Rightarrow> world \<Rightarrow> world" where
  "update env msg room w =
     (case updateDisplayname_start msg room w of
        (kn, w1) \<Rightarrow>
          (case updateAvatar_start msg room w1 of
             (ka, w2) \<Rightarrow>
               (case updateDisplayname_finish env kn w2 of
                  (_, w3) \<Rightarrow>
                    (case updateAvatar_finish env ka w3 of
                       (_, w4) \<Rightarrow> w4))))"

section \<open>Messages\<close>

text \<open>
  The pattern of line 181, \<open><https:\/\/matrix\.to\/#\/@.+:.+\|(.+)>\<close>, is a sequence
  of literal texts, greedy \<open>.+\<close> and one greedy group \<open>(.+)\<close>. Without the \<open>s\<close> flag a
  dot matches every character but a line terminator. A text is a list of 8-bit
  characters here, so the line terminators are line feed and carriage return; the
  other two of the language, U+2028 and U+2029, lie outside this range.
\<close>

datatype rx = Lit string | Dots | Group_Dots

definition line_terminator :: "char \<Rightarrow> bool" where
  "line_terminator c = (c = CHR 0x0A \<or> c = CHR 0x0D)"

text \<open>
  A greedy repetition takes as many characters as it can and gives them back one at
  a time, down to one, until the rest of the pattern matches.
\<close>

fun try_lengths :: "(string \<Rightarrow> string \<Rightarrow> 'a option) \<Rightarrow> string \<Rightarrow> nat \<Rightarrow> 'a option" where
  "try_lengths k s 0 = None"
| "try_lengths k s (Suc n) =
     (case k (take (Suc n) s) (drop (Suc n) s) of
        Some r \<Rightarrow> Some r
      | None \<Rightarrow> try_lengths k s n)"

text \<open>A match of the items at the start of \<open>s\<close>: group 1 and the text after the match.\<close>

primrec rx_match :: "rx list \<Rightarrow> string \<Rightarrow> (string \<times> string) option" where
  "rx_match [] s = Some ([], s)"
| "rx_match (x # xs) s =
     (case x of
        Lit l \<Rightarrow> if take (length l) s = l then rx_match xs (drop (length l) s) else None
      | Dots \<Rightarrow>
          try_lengths (\<lambda>t r. rx_match xs r) s
            (length (takeWhile (\<lambda>c. \<not> line_terminator c) s))
      | Group_Dots \<Rightarrow>
          try_lengths (\<lambda>t r. map_option (\<lambda>gr. (t, snd gr)) (rx_match xs r)) s
            (length (takeWhile (\<lambda>c. \<not> line_terminator c) s)))"

definition mention_rx :: "rx list" where
  "mention_rx =
     [Lit ''<https://matrix.to/#/@'', Dots, Lit '':'', Dots, Lit ''|'', Group_Dots, Lit ''>'']"

text \<open>A match consumes text: what is left after it is shorter than the input.\<close>

lemma try_lengths_drop:
  assumes "\<And>t r z. k t r = Some z \<Longrightarrow> P z r"
  shows "try_lengths k s n = Some z \<Longrightarrow> \<exists>m. 0 < m \<and> m \<le> n \<and> P z (drop m s)"
proof (induction n)
  case 0
  then show ?case by simp
next
  case (Suc n)
  show ?case
  proof (cases "k (take (Suc n) s) (drop (Suc n) s)")
    case None
    with Suc obtain m where "0 < m" "m \<le> n" "P z (drop m s)" by auto
    then show ?thesis by (intro exI[of _ m]) simp
  next
    case (Some r)
    with Suc.prems have "r = z" by simp
    with Some assms have "P z (drop (Suc n) s)" by blast
    then show ?thesis by (intro exI[of _ "Suc n"]) simp
  qed
qed

lemma rx_match_rest: "rx_match xs s = Some (g, r) \<Longrightarrow> length r \<le> length s"
proof (induction xs arbitrary: s g r)
  case Nil
  then show ?case by simp
next
  case (Cons x xs)
  show ?case
  proof (cases x)
    case (Lit l)
    with Cons.prems have "rx_match xs (drop (length l) s) = Some (g, r)"
      by (simp split: if_splits)
    from Cons.IH[OF this] show ?thesis by simp
  next
    case Dots
    with Cons.prems have
      "try_lengths (\<lambda>t r. rx_match xs r) s
         (length (takeWhile (\<lambda>c. \<not> line_terminator c) s)) = Some (g, r)"
      by simp
    from try_lengths_drop[where P="\<lambda>z r'. length (snd z) \<le> length r'", OF _ this]
    obtain m where "length r \<le> length (drop m s)"
      using Cons.IH by fastforce
    then show ?thesis by simp
  next
    case Group_Dots
    with Cons.prems have
      "try_lengths (\<lambda>t r. map_option (\<lambda>gr. (t, snd gr)) (rx_match xs r)) s
         (length (takeWhile (\<lambda>c. \<not> line_terminator c) s)) = Some (g, r)"
      by simp
    from try_lengths_drop[where P="\<lambda>z r'. length (snd z) \<le> length r'", OF _ this]
    obtain m where "length r \<le> length (drop m s)"
      using Cons.IH by fastforce
    then show ?thesis by simp
  qed
qed

lemma mention_match_shorter:
  assumes "rx_match mention_rx s = Some (g, r)"
  shows "length r < length s"
proof -
  let ?l = "''<https://matrix.to/#/@''"
  let ?tl = "[Dots, Lit '':'', Dots, Lit ''|'', Group_Dots, Lit ''>'']"
  from assms have p: "take (length ?l) s = ?l"
    and t: "rx_match ?tl (drop (length ?l) s) = Some (g, r)"
    unfolding mention_rx_def by (simp_all split: if_splits)
  from p have "length ?l \<le> length s"
    by (metis length_take min.cobounded1)
  moreover from rx_match_rest[OF t] have "length r \<le> length s - length ?l" by simp
  ultimately show ?thesis by simp
qed

text \<open>
  \<open>text.replace(/.../g, "$1")\<close>: the text is scanned from the left; at the first
  position where the pattern matches, the match is replaced by its group 1 and the
  scan goes on after the match; a character where nothing matches is kept.
\<close>

function replace_mentions :: "string \<Rightarrow> string" where
  "replace_mentions [] = []"
| "replace_mentions (c # cs) =
     (case rx_match mention_rx (c # cs) of
        Some (g, rest) \<Rightarrow> g @ replace_mentions rest
      | None \<Rightarrow> c # replace_mentions cs)"
  by pat_completeness auto
termination
  by (relation "measure length") (auto dest: mention_match_shorter)

text \<open>Lines 192-201.\<close>

definition sendMessage ::
  "env \<Rightarrow> string \<Rightarrow> msg_content \<Rightarrow> string \<Rightarrow> nat \<Rightarrow> world \<Rightarrow> (error + string) \<times> world" where
  "sendMessage env roomId msg slackRoomID slackEventTS w =
     (let w1 = w\<lparr>intent_calls := intent_calls w @ [SendMessage roomId msg]\<rparr>
      in case intent_sendMessage env roomId msg of
           Rejected e \<Rightarrow> (Inl e, w1)
         | Resolved event_id \<Rightarrow>
             (let w2 = w1\<lparr>sent_messages := sent_messages w1 + 1\<rparr>;
                  ev = \<lparr>ev_roomId = roomId, ev_eventId = event_id,
                        ev_slackRoomID = slackRoomID, ev_slackEventTS = slackEventTS\<rparr>
              in case upsertEvent env ev of
                   Some e \<Rightarrow> (Inl e, w2)
                 | None \<Rightarrow> (Inr event_id, w2\<lparr>events := events w2 @ [ev]\<rparr>)))"

text \<open>Lines 174-190. The formatter is given the text as it came, not the rewritten body.\<close>

definition sendText ::
  "env \<Rightarrow> string \<Rightarrow> string \<Rightarrow> string \<Rightarrow> nat \<Rightarrow> world \<Rightarrow> (error + string) \<times> world" where
  "sendText env roomId text slackRoomID slackEventTS w =
     (let content =
            \<lparr>msg_body = replace_mentions text, msgtype = ''m.text'',
             formatted_body = Slackdown_parse env text, format = ''org.matrix.custom.html''\<rparr>
      in sendMessage env roomId content slackRoomID slackEventTS w)"

section \<open>Initial state and a cooperative outside world\<close>

text \<open>The world of a ghost that has just been constructed: nothing has happened yet.\<close>

definition new_world :: "SlackGhost \<Rightarrow> world" where
  "new_world g =
     \<lparr>ghost = g, remote_calls = 0, requests = [], media_gets = [], intent_calls = [],
      store_puts = [], sent_messages = 0, events = [], clock = 0, timers = []\<rparr>"

text \<open>
  An outside world in which every \<open>users.info\<close> request settles with \<open>r\<close> and every
  other call succeeds: a download returns the bytes \<open>data\<close> as \<open>image/png\<close>, an upload
  returns the content reference \<open>mxc://\<close> followed by the title, a sent message gets
  the event id \<open>$e\<close>, and the formatter returns its input.
\<close>

definition answering :: "response outcome \<Rightarrow> env" where
  "answering r =
     \<lparr>users_info = (\<lambda>k. r),
      intent_setDisplayName = (\<lambda>n. None),
      intent_setAvatarUrl = (\<lambda>c. None),
      client_uploadContent = (\<lambda>f. Resolved (Some (''mxc://'' @ title f))),
      http_get = (\<lambda>u. Resolved \<lparr>body = ''data'', content_type = Some ''image/png''\<rparr>),
      putUserToStore = (\<lambda>g. None),
      intent_sendMessage = (\<lambda>room c. Resolved ''$e''),
      upsertEvent = (\<lambda>e. None),
      Slackdown_parse = (\<lambda>t. t)\<rparr>"

text \<open>Example data: a ghost loaded from the store, and profiles built field by field.\<close>

definition ghost_bob :: SlackGhost where
  "ghost_bob =
     fromEntry \<lparr>id = Some ''U1'', entry_display_name = Some ''Bob'', avatar_url = None\<rparr>"

definition no_profile :: slack_profile where
  "no_profile =
     \<lparr>display_name = None, real_name = None, image_original = None, image_1024 = None,
      image_512 = None, image_192 = None, image_72 = None, image_48 = None\<rparr>"

definition with_profile :: "slack_profile \<Rightarrow> response outcome" where
  "with_profile p = Resolved \<lparr>user = Some \<lparr>profile = Some p\<rparr>\<rparr>"

section \<open>Properties of the user lookup\<close>

lemmas lookup_defs =
  lookupUserInfo_def lookupUserInfo_start_def lookupUserInfo_finish_def lookupUserInfo_resume_def

lemmas example_defs =
  answering_def with_profile_def no_profile_def new_world_def ghost_bob_def fromEntry_def

lemma lookupUserInfo_start_frame [simp]:
  "displayName (ghost (snd (lookupUserInfo_start uid tok w))) = displayName (ghost w)"
  "avatarUrl (ghost (snd (lookupUserInfo_start uid tok w))) = avatarUrl (ghost w)"
  "intent_calls (snd (lookupUserInfo_start uid tok w)) = intent_calls w"
  by (simp_all add: lookupUserInfo_start_def Let_def split: option.splits)

lemma lookupUserInfo_finish_frame [simp]:
  "displayName (ghost (snd (lookupUserInfo_finish env s w))) = displayName (ghost w)"
  "avatarUrl (ghost (snd (lookupUserInfo_finish env s w))) = avatarUrl (ghost w)"
  "intent_calls (snd (lookupUserInfo_finish env s w)) = intent_calls w"
  by (simp_all add: lookupUserInfo_finish_def lookupUserInfo_resume_def
      split: started.splits option.splits outcome.splits lookup_await.splits)

lemma lookupUserInfo_frame:
  "intent_calls (snd (lookupUserInfo env uid tok w)) = intent_calls w"
  "displayName (ghost (snd (lookupUserInfo env uid tok w))) = displayName (ghost w)"
  "avatarUrl (ghost (snd (lookupUserInfo env uid tok w))) = avatarUrl (ghost w)"
  "store_puts (snd (lookupUserInfo env uid tok w)) = store_puts w"
  by (simp_all add: lookup_defs Let_def split: option.splits outcome.splits)

text \<open>
  A request that is rejected, or answered without a user with a profile, stays in
  \<open>userInfoLoading\<close>: the lookup that sent it counts one remote call and leaves the
  handle set, and the lookup after it counts none.
\<close>

lemma failed_lookup_stays_in_flight:
  assumes "userInfoCache (ghost w) = None" and "userInfoLoading (ghost w) = None"
    and "\<forall>u. fst (lookupUserInfo env slackUserId token w) \<noteq> Inr (Some u)"
  shows "remote_calls (snd (lookupUserInfo env slackUserId token w)) = remote_calls w + 1"
    and "userInfoLoading (ghost (snd (lookupUserInfo env slackUserId token w)))
         = Some (length (requests w))"
    and "remote_calls (snd (lookupUserInfo env' slackUserId' token'
           (snd (lookupUserInfo env slackUserId token w)))) = remote_calls w + 1"
  using assms
  by (auto simp: lookup_defs Let_def split: option.splits outcome.splits)

text \<open>
  C1. The claim: after a lookup whose fetch fails or resolves without user or profile,
  the cache entry is empty again and the next call of \<open>lookupUserInfo\<close> issues a new
  remote call. The code does not do this. On a new ghost, a first lookup answered by a
  body without \<open>user\<close> leaves \<open>userInfoLoading\<close> holding the settled promise (line 133
  returns before line 137 clears it), and a second lookup joins that promise: the
  remote-call counter stays at 1. The same happens when the request is rejected.
\<close>

theorem failed_lookup_is_not_retried:
  "remote_calls
     (snd (lookupUserInfo (answering (Resolved \<lparr>user = None\<rparr>)) ''U1'' ''xoxb''
        (snd (lookupUserInfo (answering (Resolved \<lparr>user = None\<rparr>)) ''U1'' ''xoxb''
           (new_world ghost_bob))))) = 1
   \<and> userInfoLoading
       (ghost (snd (lookupUserInfo (answering (Resolved \<lparr>user = None\<rparr>)) ''U1'' ''xoxb''
          (new_world ghost_bob)))) = Some 0
   \<and> remote_calls
       (snd (lookupUserInfo (answering (Rejected ''ETIMEDOUT'')) ''U1'' ''xoxb''
          (snd (lookupUserInfo (answering (Rejected ''ETIMEDOUT'')) ''U1'' ''xoxb''
             (new_world ghost_bob))))) = 1"
  by (simp add: lookup_defs example_defs)

text \<open>
  Concurrent lookups on a ghost with nothing cached and nothing in flight send one
  request, whatever the answer is: the first call sends it and every later call joins.
\<close>

lemma starts_joined:
  assumes "userInfoCache (ghost w) = None" and "userInfoLoading (ghost w) = Some p"
  shows "lookupUserInfo_starts cs w = (map (\<lambda>c. Awaiting p Joiner) cs, w)"
  using assms by (induction cs) (auto simp: lookupUserInfo_start_def)

lemma finishes_remote_calls:
  "remote_calls (snd (lookupUserInfo_finishes env ss w)) = remote_calls w"
proof (induction ss arbitrary: w)
  case Nil
  then show ?case by simp
next
  case (Cons s ss)
  have "remote_calls (snd (lookupUserInfo_finish env s w)) = remote_calls w"
    by (simp add: lookupUserInfo_finish_def lookupUserInfo_resume_def
        split: started.splits outcome.splits lookup_await.splits option.splits)
  with Cons.IH[of "snd (lookupUserInfo_finish env s w)"] show ?case
    by (simp add: split_beta)
qed

lemma concurrent_lookups_one_request:
  assumes "userInfoCache (ghost w) = None" and "userInfoLoading (ghost w) = None"
    and "cs \<noteq> []"
  shows "remote_calls (snd (lookupUserInfo_concurrent env cs w)) = remote_calls w + 1"
proof -
  from assms(3) obtain uid tok cs' where cs: "cs = (uid, tok) # cs'"
    by (cases cs) auto
  define w1 where "w1 = snd (lookupUserInfo_start uid tok w)"
  have 1: "userInfoCache (ghost w1) = None"
    "userInfoLoading (ghost w1) = Some (length (requests w))"
    "remote_calls w1 = remote_calls w + 1"
    using assms(1,2) by (simp_all add: w1_def lookupUserInfo_start_def Let_def)
  have "snd (lookupUserInfo_starts cs w) = w1"
    using starts_joined[OF 1(1,2), of cs'] by (simp add: cs w1_def split_beta)
  then show ?thesis
    using finishes_remote_calls[of env "fst (lookupUserInfo_starts cs w)" w1] 1(3)
    by (simp add: lookupUserInfo_concurrent_def split_beta)
qed

text \<open>
  C2. The claim: N concurrent lookups make one remote call and all N callers receive the
  same result. One request is sent, as the lemma above shows, but the callers do not
  all receive the same result. When the body has a \<open>user\<close> without \<open>profile\<close>, the call
  that sent the request tests \<open>!response.user || !response.user.profile\<close> and returns
  \<open>undefined\<close>, while a call that joined tests \<open>response.user\<close> only and returns the user.
\<close>

theorem joined_lookup_returns_profileless_user:
  "lookupUserInfo_concurrent (answering (Resolved \<lparr>user = Some \<lparr>profile = None\<rparr>\<rparr>))
      [(''U1'', ''xoxb''), (''U1'', ''xoxb'')] (new_world ghost_bob)
   = ([Inr None, Inr (Some \<lparr>profile = None\<rparr>)],
      (new_world ghost_bob)
        \<lparr>remote_calls := 1, requests := [(''xoxb'', ''U1'')],
         ghost := ghost_bob\<lparr>userInfoLoading := Some 0\<rparr>\<rparr>)"
  by (simp add: lookupUserInfo_concurrent_def lookup_defs example_defs)

text \<open>
  A pending eviction belongs to a cached value: while nothing is cached no timer is
  pending, and a cached value has exactly one timer, due in the future. Lookups and
  the passing of time keep this, so the state a lookup fetches from has no timer.
\<close>

definition eviction_scheduled :: "world \<Rightarrow> bool" where
  "eviction_scheduled w =
     (case userInfoCache (ghost w) of
        None \<Rightarrow> timers w = []
      | Some u \<Rightarrow>
          userInfoLoading (ghost w) = None
          \<and> (case timers w of [due] \<Rightarrow> clock w < due | _ \<Rightarrow> False))"

lemma eviction_scheduled_kept:
  "eviction_scheduled (new_world (fromEntry e))"
  "eviction_scheduled w \<Longrightarrow> eviction_scheduled (snd (lookupUserInfo env uid tok w))"
  "eviction_scheduled w \<Longrightarrow> eviction_scheduled (elapse d w)"
  by (auto simp: eviction_scheduled_def new_world_def fromEntry_def lookup_defs elapse_def
      USER_CACHE_TIMEOUT_def Let_def split: option.splits outcome.splits list.splits)

text \<open>
  C3. A lookup on a ghost with nothing cached, nothing in flight and no timer pending,
  answered by a user with a profile, returns that user. A lookup made less than
  \<open>USER_CACHE_TIMEOUT\<close> (ten minutes) later returns the same user and changes nothing:
  no remote call. A lookup made when the ten minutes have passed, so that the eviction
  has run, counts one more remote call and sends one more request.
\<close>

theorem ttl_expiry:
  assumes "userInfoCache (ghost w) = None" and "userInfoLoading (ghost w) = None"
    and "timers w = []"
    and "users_info env (length (requests w)) = Resolved resp"
    and "user resp = Some u" and "profile u = Some p"
  shows "fst (lookupUserInfo env slackUserId token w) = Inr (Some u)
    \<and> (d < USER_CACHE_TIMEOUT \<longrightarrow>
         lookupUserInfo env' slackUserId' token'
           (elapse d (snd (lookupUserInfo env slackUserId token w)))
         = (Inr (Some u), elapse d (snd (lookupUserInfo env slackUserId token w))))
    \<and> (USER_CACHE_TIMEOUT \<le> d \<longrightarrow>
         remote_calls (snd (lookupUserInfo env' slackUserId' token'
           (elapse d (snd (lookupUserInfo env slackUserId token w)))))
         = remote_calls (snd (lookupUserInfo env slackUserId token w)) + 1
       \<and> requests (snd (lookupUserInfo env' slackUserId' token'
           (elapse d (snd (lookupUserInfo env slackUserId token w)))))
         = requests (snd (lookupUserInfo env slackUserId token w)) @ [(token', slackUserId')])"
  using assms
  by (simp add: lookup_defs elapse_def Let_def split: outcome.split option.split)

text \<open>
  The same on a new ghost: one millisecond before the ten minutes are over a second
  lookup is served from the cache, at ten minutes it is the second remote call.
\<close>

theorem ttl_expiry_witness:
  "userInfoCache (ghost (new_world ghost_bob)) = None
   \<and> userInfoLoading (ghost (new_world ghost_bob)) = None
   \<and> timers (new_world ghost_bob) = []
   \<and> (599999::nat) < USER_CACHE_TIMEOUT
   \<and> lookupUserInfo (answering (Rejected ''down'')) ''U2'' ''other''
        (elapse 599999 (snd (lookupUserInfo (answering (with_profile no_profile)) ''U1'' ''xoxb''
           (new_world ghost_bob))))
      = (Inr (Some \<lparr>profile = Some no_profile\<rparr>),
         elapse 599999 (snd (lookupUserInfo (answering (with_profile no_profile)) ''U1'' ''xoxb''
           (new_world ghost_bob))))
   \<and> USER_CACHE_TIMEOUT \<le> (600000::nat)
   \<and> remote_calls (snd (lookupUserInfo (answering (Rejected ''down'')) ''U2'' ''other''
        (elapse 600000 (snd (lookupUserInfo (answering (with_profile no_profile)) ''U1'' ''xoxb''
           (new_world ghost_bob)))))) = 2"
proof -
  let ?env = "answering (with_profile no_profile)"
  let ?w = "new_world ghost_bob"
  have h: "userInfoCache (ghost ?w) = None" "userInfoLoading (ghost ?w) = None" "timers ?w = []"
    "users_info ?env (length (requests ?w)) = Resolved \<lparr>user = Some \<lparr>profile = Some no_profile\<rparr>\<rparr>"
    "user \<lparr>user = Some \<lparr>profile = Some no_profile\<rparr>\<rparr> = Some \<lparr>profile = Some no_profile\<rparr>"
    "profile \<lparr>profile = Some no_profile\<rparr> = Some no_profile"
    by (simp_all add: answering_def with_profile_def new_world_def ghost_bob_def fromEntry_def)
  have t: "(599999::nat) < USER_CACHE_TIMEOUT" "USER_CACHE_TIMEOUT \<le> (600000::nat)"
    by (simp_all add: USER_CACHE_TIMEOUT_def)
  have c: "remote_calls (snd (lookupUserInfo ?env ''U1'' ''xoxb'' ?w)) = 1"
    by (simp add: lookup_defs answering_def with_profile_def new_world_def ghost_bob_def
        fromEntry_def)
  from h(1-3) t c
    ttl_expiry[OF h, where slackUserId = "''U1''" and token = "''xoxb''" and d = 599999
      and env' = "answering (Rejected ''down'')" and slackUserId' = "''U2''"
      and token' = "''other''"]
    ttl_expiry[OF h, where slackUserId = "''U1''" and token = "''xoxb''" and d = 600000
      and env' = "answering (Rejected ''down'')" and slackUserId' = "''U2''"
      and token' = "''other''"]
  show ?thesis by simp
qed

text \<open>
  C9. The cache belongs to the ghost, not to the looked-up user id. When a user is cached
  or a request is in flight, \<open>lookupUserInfo\<close> gives the same result for any user id
  and token, changes nothing (so makes no remote call), and that result is the cached
  user or else what the request in flight settles with.
\<close>

theorem cache_per_ghost:
  assumes "userInfoCache (ghost w) \<noteq> None \<or> userInfoLoading (ghost w) \<noteq> None"
  shows "lookupUserInfo env slackUserId token w = lookupUserInfo env slackUserId' token' w
    \<and> snd (lookupUserInfo env slackUserId token w) = w
    \<and> (\<forall>u. userInfoCache (ghost w) = Some u \<longrightarrow>
           fst (lookupUserInfo env slackUserId token w) = Inr (Some u))
    \<and> (\<forall>p. userInfoCache (ghost w) = None \<and> userInfoLoading (ghost w) = Some p \<longrightarrow>
           fst (lookupUserInfo env slackUserId token w)
           = (case users_info env p of
                Rejected e \<Rightarrow> Inl e
              | Resolved resp \<Rightarrow> Inr (user resp)))"
  using assms
  by (auto simp: lookup_defs split: option.splits outcome.splits)

text \<open>
  After \<open>U1\<close> has been looked up on a ghost, a lookup of \<open>U2\<close> with another token
  returns the profile of \<open>U1\<close>, and so does a lookup of \<open>U1\<close>.
\<close>

theorem cache_per_ghost_witness:
  "userInfoCache (ghost (snd (lookupUserInfo
       (answering (with_profile (no_profile\<lparr>real_name := Some ''Bob B''\<rparr>))) ''U1'' ''xoxb''
       (new_world ghost_bob)))) \<noteq> None
   \<and> lookupUserInfo (answering (with_profile no_profile)) ''U2'' ''other''
        (snd (lookupUserInfo
           (answering (with_profile (no_profile\<lparr>real_name := Some ''Bob B''\<rparr>))) ''U1'' ''xoxb''
           (new_world ghost_bob)))
      = lookupUserInfo (answering (with_profile no_profile)) ''U1'' ''xoxb''
        (snd (lookupUserInfo
           (answering (with_profile (no_profile\<lparr>real_name := Some ''Bob B''\<rparr>))) ''U1'' ''xoxb''
           (new_world ghost_bob)))
   \<and> fst (lookupUserInfo (answering (with_profile no_profile)) ''U2'' ''other''
        (snd (lookupUserInfo
           (answering (with_profile (no_profile\<lparr>real_name := Some ''Bob B''\<rparr>))) ''U1'' ''xoxb''
           (new_world ghost_bob))))
      = Inr (Some \<lparr>profile = Some (no_profile\<lparr>real_name := Some ''Bob B''\<rparr>)\<rparr>)"
proof -
  let ?w = "snd (lookupUserInfo
       (answering (with_profile (no_profile\<lparr>real_name := Some ''Bob B''\<rparr>))) ''U1'' ''xoxb''
       (new_world ghost_bob))"
  have c: "userInfoCache (ghost ?w)
           = Some \<lparr>profile = Some (no_profile\<lparr>real_name := Some ''Bob B''\<rparr>)\<rparr>"
    by (simp add: lookup_defs example_defs)
  then have h: "userInfoCache (ghost ?w) \<noteq> None \<or> userInfoLoading (ghost ?w) \<noteq> None"
    by simp
  let ?e = "answering (with_profile no_profile)"
  from cache_per_ghost[OF h, where env = ?e and slackUserId = "''U2''" and token = "''other''"
      and slackUserId' = "''U1''" and token' = "''xoxb''"]
  have e: "lookupUserInfo ?e ''U2'' ''other'' ?w = lookupUserInfo ?e ''U1'' ''xoxb'' ?w"
    and f: "\<forall>u. userInfoCache (ghost ?w) = Some u \<longrightarrow>
              fst (lookupUserInfo ?e ''U2'' ''other'' ?w) = Inr (Some u)"
    by blast+
  from f c have
    "fst (lookupUserInfo ?e ''U2'' ''other'' ?w)
     = Inr (Some \<lparr>profile = Some (no_profile\<lparr>real_name := Some ''Bob B''\<rparr>)\<rparr>)"
    by blast
  with e h c show ?thesis by (intro conjI) simp_all
qed

section \<open>Properties of serialisation\<close>

text \<open>
  C8. An entry read by \<open>fromEntry\<close> and written by \<open>toEntry\<close> comes back as it was. The
  entry depends on no field that lives in memory only: replacing the activity time,
  the cached user and the in-flight handle does not change it, and neither does a
  lookup, a bump of the activity time or the passing of time.
\<close>

theorem entry_roundtrip:
  "toEntry (fromEntry e) = e
   \<and> toEntry (g\<lparr>atime := a, userInfoCache := c, userInfoLoading := l\<rparr>) = toEntry g
   \<and> toEntry (ghost (snd (lookupUserInfo env slackUserId token w))) = toEntry (ghost w)
   \<and> toEntry (ghost (bumpATime w)) = toEntry (ghost w)
   \<and> toEntry (ghost (elapse d w)) = toEntry (ghost w)"
  by (simp add: toEntry_def fromEntry_def lookup_defs bumpATime_def elapse_def Let_def
      split: option.split outcome.split lookup_await.split)

section \<open>Properties of the avatar choice\<close>

text \<open>
  The images of a profile in the order of lines 102-104, and the choice as the
  specification words it: the first candidate that is not absent.
\<close>

definition candidates :: "slack_profile \<Rightarrow> string option list" where
  "candidates p =
     [image_original p, image_1024 p, image_512 p, image_192 p, image_72 p, image_48 p]"

fun first_present :: "string option list \<Rightarrow> string option" where
  "first_present [] = None"
| "first_present (None # cs) = first_present cs"
| "first_present (Some s # cs) = Some s"

text \<open>
  C5, as amended. When the lookup returns a user with a profile, \<open>lookupAvatarUrl\<close>
  returns the first candidate, in the order original, 1024, 512, 192, 72, 48, that is
  present and not the empty string; when no candidate is such it returns \<open>image_48\<close>
  as it is.
\<close>

theorem lookupAvatarUrl_first_nonempty:
  assumes "lookupUserInfo env slackUserId token w = (Inr (Some u), w')"
    and "profile u = Some p"
  shows "lookupAvatarUrl env slackUserId token w
         = (Inr (case find truthy (candidates p) of Some c \<Rightarrow> c | None \<Rightarrow> image_48 p), w')"
  using assms
  by (simp add: lookupAvatarUrl_def lookupAvatarUrl_result_def candidates_def js_or_def)

text \<open>With \<open>image_512 = "b"\<close> and \<open>image_192 = "c"\<close> only, the avatar is \<open>"b"\<close>.\<close>

theorem lookupAvatarUrl_first_nonempty_witness:
  "fst (lookupUserInfo
          (answering (with_profile (no_profile\<lparr>image_512 := Some ''b'', image_192 := Some ''c''\<rparr>)))
          ''U1'' ''xoxb'' (new_world ghost_bob))
     = Inr (Some \<lparr>profile = Some (no_profile\<lparr>image_512 := Some ''b'', image_192 := Some ''c''\<rparr>)\<rparr>)
   \<and> fst (lookupAvatarUrl
          (answering (with_profile (no_profile\<lparr>image_512 := Some ''b'', image_192 := Some ''c''\<rparr>)))
          ''U1'' ''xoxb'' (new_world ghost_bob))
     = Inr (Some ''b'')"
proof -
  let ?p = "no_profile\<lparr>image_512 := Some ''b'', image_192 := Some ''c''\<rparr>"
  let ?env = "answering (with_profile ?p)"
  let ?w = "new_world ghost_bob"
  have f: "fst (lookupUserInfo ?env ''U1'' ''xoxb'' ?w) = Inr (Some \<lparr>profile = Some ?p\<rparr>)"
    by (simp add: lookup_defs example_defs)
  then have h1: "lookupUserInfo ?env ''U1'' ''xoxb'' ?w
            = (Inr (Some \<lparr>profile = Some ?p\<rparr>), snd (lookupUserInfo ?env ''U1'' ''xoxb'' ?w))"
    by (simp add: prod_eq_iff)
  have h2: "profile \<lparr>profile = Some ?p\<rparr> = Some ?p" by simp
  have "find truthy (candidates ?p) = Some (Some ''b'')"
    by (simp add: candidates_def truthy_def no_profile_def)
  with f lookupAvatarUrl_first_nonempty[OF h1 h2] show ?thesis by simp
qed

text \<open>
  C5 as stated fails when a candidate is present but empty: with \<open>image_original = ""\<close>
  and \<open>image_1024 = "b"\<close> the first candidate that is not absent is \<open>""\<close>, and
  \<open>lookupAvatarUrl\<close> returns \<open>"b"\<close>.
\<close>

theorem lookupAvatarUrl_empty_original:
  "fst (lookupAvatarUrl
          (answering (with_profile (no_profile\<lparr>image_original := Some '''', image_1024 := Some ''b''\<rparr>)))
          ''U1'' ''xoxb'' (new_world ghost_bob)) = Inr (Some ''b'')
   \<and> first_present (candidates (no_profile\<lparr>image_original := Some '''', image_1024 := Some ''b''\<rparr>))
       = Some ''''"
  by (simp add: lookupAvatarUrl_def lookupAvatarUrl_result_def lookup_defs example_defs
      candidates_def js_or_def truthy_def)

section \<open>Properties of the display name\<close>

text \<open>\<open>updateDisplayname\<close> run alone is the source read from top to bottom.\<close>

lemma updateDisplayname_sequential:
  assumes "AccessToken room = Some token" "token \<noteq> []"
  shows "updateDisplayname env m room w =
     (if truthy (user_name m) then displayName_apply env (user_name m) w
      else case getDisplayname env (user_id m) token w of
             (Inl e, w') \<Rightarrow> (Inl e, w')
           | (Inr r, w') \<Rightarrow> displayName_apply env r w')"
proof (cases "truthy (user_name m)")
  case True
  with assms show ?thesis
    by (simp add: updateDisplayname_def updateDisplayname_start_def updateDisplayname_finish_def
        displayName_apply_def displayName_check_def split: option.splits)
next
  case False
  with assms show ?thesis
    by (simp add: updateDisplayname_def updateDisplayname_start_def updateDisplayname_finish_def
        getDisplayname_def lookupUserInfo_def split_beta split: sum.splits)
qed

text \<open>
  C6, as amended. In a room with a token, the display name is the name on the event
  when that is present and not the empty string, and then no lookup is made; when it is
  absent or empty the name is the one \<open>getDisplayname\<close> returns, which for a user with
  a profile is \<open>display_name\<close> when that is present and not empty and \<open>real_name\<close>
  otherwise. A resolved name that is absent, empty or equal to the stored
  \<open>displayName\<close> changes nothing: no puppet call, no record update, no store write.
  Any other name is pushed with \<open>setDisplayName\<close>.
\<close>

theorem displayname_sync:
  assumes "AccessToken room = Some token" and "token \<noteq> []"
  shows "(truthy (user_name m) \<longrightarrow>
            updateDisplayname env m room w = displayName_apply env (user_name m) w)
    \<and> (\<not> truthy (user_name m) \<longrightarrow>
            updateDisplayname env m room w =
              (case getDisplayname env (user_id m) token w of
                 (Inl e, w') \<Rightarrow> (Inl e, w')
               | (Inr r, w') \<Rightarrow> displayName_apply env r w'))
    \<and> (profile u = Some p \<longrightarrow>
            getDisplayname_result (Some u)
            = (if truthy (display_name p) then display_name p else real_name p))
    \<and> (\<not> truthy r \<or> displayName (ghost w) = r \<longrightarrow> displayName_apply env r w = (Inr (), w))
    \<and> (r = Some n \<and> n \<noteq> [] \<and> displayName (ghost w) \<noteq> Some n \<longrightarrow>
            intent_calls (snd (displayName_apply env r w)) = intent_calls w @ [SetDisplayName n])"
proof -
  have "displayName_apply env r w = (Inr (), w)" if "\<not> truthy r \<or> displayName (ghost w) = r"
    using that
    by (auto simp: displayName_apply_def displayName_check_def truthy_def split: option.splits)
  moreover have "intent_calls (snd (displayName_apply env r w)) = intent_calls w @ [SetDisplayName n]"
    if "r = Some n \<and> n \<noteq> [] \<and> displayName (ghost w) \<noteq> Some n"
    using that
    by (simp add: displayName_apply_def displayName_check_def displayName_set_def Let_def
        split: option.splits)
  ultimately show ?thesis
    using updateDisplayname_sequential[OF assms, of env m w]
    by (simp add: getDisplayname_result_def js_or_def)
qed

text \<open>
  The event \<open>{user_id: "U1", user_name: "Alice"}\<close> on a ghost stored as \<open>"Bob"\<close>: one
  \<open>setDisplayName("Alice")\<close>, no request, and the same event again changes nothing.
\<close>

theorem displayname_sync_witness:
  "AccessToken \<lparr>AccessToken = Some ''xoxb''\<rparr> = Some ''xoxb'' \<and> ''xoxb'' \<noteq> []
   \<and> truthy (user_name \<lparr>user_id = ''U1'', user_name = Some ''Alice''\<rparr>)
   \<and> intent_calls (snd (updateDisplayname (answering (Rejected ''down''))
        \<lparr>user_id = ''U1'', user_name = Some ''Alice''\<rparr> \<lparr>AccessToken = Some ''xoxb''\<rparr>
        (new_world ghost_bob))) = [SetDisplayName ''Alice'']
   \<and> requests (snd (updateDisplayname (answering (Rejected ''down''))
        \<lparr>user_id = ''U1'', user_name = Some ''Alice''\<rparr> \<lparr>AccessToken = Some ''xoxb''\<rparr>
        (new_world ghost_bob))) = []
   \<and> updateDisplayname (answering (Rejected ''down''))
        \<lparr>user_id = ''U1'', user_name = Some ''Alice''\<rparr> \<lparr>AccessToken = Some ''xoxb''\<rparr>
        (snd (updateDisplayname (answering (Rejected ''down''))
           \<lparr>user_id = ''U1'', user_name = Some ''Alice''\<rparr> \<lparr>AccessToken = Some ''xoxb''\<rparr>
           (new_world ghost_bob)))
      = (Inr (), snd (updateDisplayname (answering (Rejected ''down''))
           \<lparr>user_id = ''U1'', user_name = Some ''Alice''\<rparr> \<lparr>AccessToken = Some ''xoxb''\<rparr>
           (new_world ghost_bob)))"
proof -
  let ?env = "answering (Rejected ''down'')"
  let ?m = "\<lparr>user_id = ''U1'', user_name = Some ''Alice''\<rparr>"
  let ?room = "\<lparr>AccessToken = Some ''xoxb''\<rparr>"
  let ?w = "new_world ghost_bob"
  let ?w1 = "snd (displayName_apply ?env (Some ''Alice'') ?w)"
  have h: "AccessToken ?room = Some ''xoxb''" "''xoxb'' \<noteq> []" by simp_all
  have t: "truthy (user_name ?m)" by (simp add: truthy_def)
  have d0: "displayName (ghost ?w) \<noteq> Some ''Alice''"
    by (simp add: example_defs)
  have d1: "displayName (ghost ?w1) = Some ''Alice''" "requests ?w1 = []"
    by (simp_all add: displayName_apply_def displayName_check_def displayName_set_def Let_def
        example_defs)
  from displayname_sync[OF h, of ?m ?env ?w _ _ "Some ''Alice''" "''Alice''"] t d0
  have 1: "updateDisplayname ?env ?m ?room ?w = displayName_apply ?env (Some ''Alice'') ?w"
    and 2: "intent_calls ?w1 = intent_calls ?w @ [SetDisplayName ''Alice'']"
    by simp_all
  from displayname_sync[OF h, of ?m ?env ?w1 _ _ "Some ''Alice''" "''Alice''"] t d1
  have 3: "updateDisplayname ?env ?m ?room ?w1 = (Inr (), ?w1)"
    by simp
  from 1 2 3 d1 t show ?thesis
    by (simp add: new_world_def)
qed

text \<open>
  C6 as stated fails on an inline name that is present but empty. For the event
  \<open>{user_id: "U1", user_name: ""}\<close> the name on the event is not absent, yet the user
  is looked up and the name of the profile is pushed.
\<close>

theorem displayname_empty_inline:
  "user_name \<lparr>user_id = ''U1'', user_name = Some ''''\<rparr> \<noteq> None
   \<and> requests (snd (updateDisplayname
         (answering (with_profile (no_profile\<lparr>display_name := Some ''Al''\<rparr>)))
         \<lparr>user_id = ''U1'', user_name = Some ''''\<rparr> \<lparr>AccessToken = Some ''xoxb''\<rparr>
         (new_world ghost_bob))) = [(''xoxb'', ''U1'')]
   \<and> intent_calls (snd (updateDisplayname
         (answering (with_profile (no_profile\<lparr>display_name := Some ''Al''\<rparr>)))
         \<lparr>user_id = ''U1'', user_name = Some ''''\<rparr> \<lparr>AccessToken = Some ''xoxb''\<rparr>
         (new_world ghost_bob))) = [SetDisplayName ''Al'']"
  by (simp add: updateDisplayname_def updateDisplayname_start_def updateDisplayname_finish_def
      displayName_apply_def displayName_check_def displayName_set_def getDisplayname_result_def
      lookup_defs example_defs js_or_def truthy_def Let_def)

text \<open>
  C10. An empty string counts as no name. \<open>getDisplayname\<close> returns \<open>real_name\<close> when
  \<open>display_name\<close> is the empty string. When the name on the event is absent or empty
  and \<open>getDisplayname\<close> returns the empty string, \<open>updateDisplayname\<close> does nothing
  beyond the lookup: no puppet call, no record update, no store write. An event whose
  name is the empty string is handled as the event without a name.
\<close>

theorem empty_name_is_absent:
  assumes "AccessToken room = Some token" and "token \<noteq> []"
  shows "(lookupUserInfo env slackUserId token w = (Inr (Some u), w')
            \<and> profile u = Some p \<and> display_name p = Some [] \<longrightarrow>
          getDisplayname env slackUserId token w = (Inr (real_name p), w'))
    \<and> (\<not> truthy (user_name m)
            \<and> getDisplayname env (user_id m) token w = (Inr (Some []), w') \<longrightarrow>
          updateDisplayname env m room w = (Inr (), w')
          \<and> intent_calls w' = intent_calls w
          \<and> displayName (ghost w') = displayName (ghost w)
          \<and> store_puts w' = store_puts w)
    \<and> (user_name m = Some [] \<longrightarrow>
          updateDisplayname env m room w = updateDisplayname env (m\<lparr>user_name := None\<rparr>) room w)"
proof -
  have a: "getDisplayname env slackUserId token w = (Inr (real_name p), w')"
    if "lookupUserInfo env slackUserId token w = (Inr (Some u), w')
        \<and> profile u = Some p \<and> display_name p = Some []"
    using that by (simp add: getDisplayname_def getDisplayname_result_def js_or_def truthy_def)
  have b: "updateDisplayname env m room w = (Inr (), w')
          \<and> intent_calls w' = intent_calls w
          \<and> displayName (ghost w') = displayName (ghost w)
          \<and> store_puts w' = store_puts w"
    if h: "\<not> truthy (user_name m) \<and> getDisplayname env (user_id m) token w = (Inr (Some []), w')"
  proof -
    from h have "w' = snd (lookupUserInfo env (user_id m) token w)"
      by (auto simp: getDisplayname_def split: prod.splits sum.splits)
    moreover have "updateDisplayname env m room w = (Inr (), w')"
      using h updateDisplayname_sequential[OF assms, of env m w]
      by (simp add: displayName_apply_def displayName_check_def)
    ultimately show ?thesis by (simp add: lookupUserInfo_frame)
  qed
  have c: "updateDisplayname env m room w = updateDisplayname env (m\<lparr>user_name := None\<rparr>) room w"
    if "user_name m = Some []"
    using that updateDisplayname_sequential[OF assms, of env m w]
      updateDisplayname_sequential[OF assms, of env "m\<lparr>user_name := None\<rparr>" w]
    by (simp add: truthy_def)
  from a b c show ?thesis by blast
qed

text \<open>
  A profile with \<open>display_name = ""\<close> and \<open>real_name = "Rob"\<close> gives the name \<open>"Rob"\<close>; a
  profile whose two names are both empty gives the empty string, and an event without
  a name then leaves the ghost named \<open>"Bob"\<close> with no puppet call and no store write.
\<close>

theorem empty_name_is_absent_witness:
  "AccessToken \<lparr>AccessToken = Some ''xoxb''\<rparr> = Some ''xoxb'' \<and> ''xoxb'' \<noteq> []
   \<and> fst (getDisplayname
        (answering (with_profile (no_profile\<lparr>display_name := Some '''', real_name := Some ''Rob''\<rparr>)))
        ''U1'' ''xoxb'' (new_world ghost_bob)) = Inr (Some ''Rob'')
   \<and> fst (getDisplayname
        (answering (with_profile (no_profile\<lparr>display_name := Some '''', real_name := Some ''''\<rparr>)))
        ''U1'' ''xoxb'' (new_world ghost_bob)) = Inr (Some '''')
   \<and> intent_calls (snd (updateDisplayname
        (answering (with_profile (no_profile\<lparr>display_name := Some '''', real_name := Some ''''\<rparr>)))
        \<lparr>user_id = ''U1'', user_name = None\<rparr> \<lparr>AccessToken = Some ''xoxb''\<rparr>
        (new_world ghost_bob))) = []
   \<and> displayName (ghost (snd (updateDisplayname
        (answering (with_profile (no_profile\<lparr>display_name := Some '''', real_name := Some ''''\<rparr>)))
        \<lparr>user_id = ''U1'', user_name = None\<rparr> \<lparr>AccessToken = Some ''xoxb''\<rparr>
        (new_world ghost_bob)))) = Some ''Bob''
   \<and> store_puts (snd (updateDisplayname
        (answering (with_profile (no_profile\<lparr>display_name := Some '''', real_name := Some ''''\<rparr>)))
        \<lparr>user_id = ''U1'', user_name = None\<rparr> \<lparr>AccessToken = Some ''xoxb''\<rparr>
        (new_world ghost_bob))) = []"
proof -
  let ?pa = "no_profile\<lparr>display_name := Some '''', real_name := Some ''Rob''\<rparr>"
  let ?pb = "no_profile\<lparr>display_name := Some '''', real_name := Some ''''\<rparr>"
  let ?ea = "answering (with_profile ?pa)"
  let ?eb = "answering (with_profile ?pb)"
  let ?m = "\<lparr>user_id = ''U1'', user_name = None\<rparr>"
  let ?room = "\<lparr>AccessToken = Some ''xoxb''\<rparr>"
  let ?w = "new_world ghost_bob"
  have h: "AccessToken ?room = Some ''xoxb''" "''xoxb'' \<noteq> []" by simp_all
  have fa: "fst (lookupUserInfo ?ea ''U1'' ''xoxb'' ?w) = Inr (Some \<lparr>profile = Some ?pa\<rparr>)"
    by (simp add: lookup_defs example_defs)
  then have la: "lookupUserInfo ?ea ''U1'' ''xoxb'' ?w
            = (Inr (Some \<lparr>profile = Some ?pa\<rparr>), snd (lookupUserInfo ?ea ''U1'' ''xoxb'' ?w))"
    by (simp add: prod_eq_iff)
  have pa: "profile \<lparr>profile = Some ?pa\<rparr> = Some ?pa" "display_name ?pa = Some []"
    "real_name ?pa = Some ''Rob''"
    by simp_all
  have gb: "getDisplayname ?eb (user_id ?m) ''xoxb'' ?w
            = (Inr (Some []), snd (lookupUserInfo ?eb ''U1'' ''xoxb'' ?w))"
    by (simp add: getDisplayname_def getDisplayname_result_def lookup_defs example_defs
        js_or_def truthy_def)
  have nt: "\<not> truthy (user_name ?m)" by (simp add: truthy_def)
  from empty_name_is_absent[OF h, where env = ?ea and slackUserId = "''U1''" and w = ?w
      and u = "\<lparr>profile = Some ?pa\<rparr>" and w' = "snd (lookupUserInfo ?ea ''U1'' ''xoxb'' ?w)"
      and p = ?pa and m = ?m] la pa
  have 1: "fst (getDisplayname ?ea ''U1'' ''xoxb'' ?w) = Inr (Some ''Rob'')"
    by simp
  from empty_name_is_absent[OF h, where env = ?eb and slackUserId = "''U1''" and w = ?w
      and u = "\<lparr>profile = Some ?pb\<rparr>" and w' = "snd (lookupUserInfo ?eb ''U1'' ''xoxb'' ?w)"
      and p = ?pb and m = ?m] gb nt
  have 2: "snd (updateDisplayname ?eb ?m ?room ?w) = snd (lookupUserInfo ?eb ''U1'' ''xoxb'' ?w)"
    and 3: "intent_calls (snd (lookupUserInfo ?eb ''U1'' ''xoxb'' ?w)) = intent_calls ?w"
      "displayName (ghost (snd (lookupUserInfo ?eb ''U1'' ''xoxb'' ?w))) = displayName (ghost ?w)"
      "store_puts (snd (lookupUserInfo ?eb ''U1'' ''xoxb'' ?w)) = store_puts ?w"
    by simp_all
  have 4: "intent_calls ?w = []" "displayName (ghost ?w) = Some ''Bob''" "store_puts ?w = []"
    by (simp_all add: example_defs)
  have 5: "fst (getDisplayname ?eb ''U1'' ''xoxb'' ?w) = Inr (Some [])"
    using gb by simp
  from 1 2 3 4 5 show ?thesis by simp
qed

section \<open>Properties of update\<close>

text \<open>The puppet calls that write the display name, and those that write the avatar.\<close>

fun is_name_write :: "intent_call \<Rightarrow> bool" where
  "is_name_write (SetDisplayName n) = True"
| "is_name_write _ = False"

fun is_avatar_write :: "intent_call \<Rightarrow> bool" where
  "is_avatar_write (SetAvatarUrl c) = True"
| "is_avatar_write _ = False"

definition name_writes :: "world \<Rightarrow> nat" where
  "name_writes w = length (filter is_name_write (intent_calls w))"

definition avatar_writes :: "world \<Rightarrow> nat" where
  "avatar_writes w = length (filter is_avatar_write (intent_calls w))"

text \<open>
  What follows describes a world in which \<open>update\<close> has nothing left to do.
  \<open>stable_user\<close> is the result a lookup gives without sending a request: the cached
  user, or else what the request in flight settles with. \<open>resolved_name\<close> and
  \<open>resolved_avatar\<close> are the values the two synchronisations compute from a lookup
  result. A name is quiet in a world when lines 86-88 return for it, an avatar when
  lines 148-155 return for it; a world is quiet for an event when the lookup is
  stable and both its name and its avatar are quiet.
\<close>

definition stable_user :: "env \<Rightarrow> world \<Rightarrow> (error + ISlackUser option) option" where
  "stable_user env w =
     (case userInfoCache (ghost w) of
        Some u \<Rightarrow> Some (Inr (Some u))
      | None \<Rightarrow>
          (case userInfoLoading (ghost w) of
             None \<Rightarrow> None
           | Some p \<Rightarrow>
               (case users_info env p of
                  Rejected e \<Rightarrow> Some (Inl e)
                | Resolved resp \<Rightarrow> Some (Inr (user resp)))))"

definition resolved_name :: "message \<Rightarrow> error + ISlackUser option \<Rightarrow> string option" where
  "resolved_name m r =
     (if truthy (user_name m) then user_name m
      else case r of Inl e \<Rightarrow> None | Inr u \<Rightarrow> getDisplayname_result u)"

definition resolved_avatar :: "error + ISlackUser option \<Rightarrow> string option" where
  "resolved_avatar r = (case r of Inl e \<Rightarrow> None | Inr u \<Rightarrow> lookupAvatarUrl_result u)"

definition name_quiet :: "string option \<Rightarrow> world \<Rightarrow> bool" where
  "name_quiet r w = (if truthy r then displayName (ghost w) = r else True)"

definition avatar_quiet :: "string option \<Rightarrow> world \<Rightarrow> bool" where
  "avatar_quiet r w =
     (case r of None \<Rightarrow> True
      | Some url \<Rightarrow> url = [] \<or> avatarUrl (ghost w) = Some url \<or> shortname url = None)"

definition quiet :: "env \<Rightarrow> message \<Rightarrow> world \<Rightarrow> bool" where
  "quiet env m w =
     (case stable_user env w of
        None \<Rightarrow> False
      | Some r \<Rightarrow> name_quiet (resolved_name m r) w \<and> avatar_quiet (resolved_avatar r) w)"

definition profile_view :: "error + ISlackUser option \<Rightarrow> error + slack_profile option" where
  "profile_view r =
     (case r of Inl e \<Rightarrow> Inl e
      | Inr None \<Rightarrow> Inr None
      | Inr (Some u) \<Rightarrow> Inr (profile u))"

definition same_lookup :: "world \<Rightarrow> world \<Rightarrow> bool" where
  "same_lookup w w' =
     (userInfoCache (ghost w) = userInfoCache (ghost w')
      \<and> userInfoLoading (ghost w) = userInfoLoading (ghost w'))"

subsection \<open>The two halves of a synchronisation\<close>

lemma displayName_apply_None [simp]: "displayName_apply env None w = (Inr (), w)"
  by (simp add: displayName_apply_def displayName_check_def)

lemma avatar_apply_None [simp]: "avatar_apply env None w = (Inr (), w)"
  by (simp add: avatar_apply_def)

lemma displayName_apply_quiet:
  "name_quiet r w \<Longrightarrow> displayName_apply env r w = (Inr (), w)"
  by (auto simp: name_quiet_def displayName_apply_def displayName_check_def truthy_def
      split: option.splits if_splits)

lemma avatar_apply_quiet:
  "avatar_quiet r w \<Longrightarrow> avatar_apply env r w = (Inr (), w)"
  by (auto simp: avatar_quiet_def avatar_apply_def split: option.splits)

lemma displayName_apply_frame [simp]:
  "userInfoCache (ghost (snd (displayName_apply env r w))) = userInfoCache (ghost w)"
  "userInfoLoading (ghost (snd (displayName_apply env r w))) = userInfoLoading (ghost w)"
  "avatarUrl (ghost (snd (displayName_apply env r w))) = avatarUrl (ghost w)"
  by (simp_all add: displayName_apply_def displayName_check_def displayName_set_def Let_def
      split: option.splits)

lemma avatar_apply_frame [simp]:
  "userInfoCache (ghost (snd (avatar_apply env a w))) = userInfoCache (ghost w)"
  "userInfoLoading (ghost (snd (avatar_apply env a w))) = userInfoLoading (ghost w)"
  "displayName (ghost (snd (avatar_apply env a w))) = displayName (ghost w)"
  by (simp_all add: avatar_apply_def uploadContent_def Let_def
      split: option.splits outcome.splits)

lemma displayName_apply_settles:
  assumes "\<forall>n. intent_setDisplayName env n = None"
  shows "name_quiet r (snd (displayName_apply env r w))"
  using assms
  by (simp add: name_quiet_def displayName_apply_def displayName_check_def displayName_set_def
      truthy_def Let_def split: option.splits)

lemma avatar_apply_settles:
  assumes "\<forall>c. intent_setAvatarUrl env c = None"
    and "\<forall>f e. client_uploadContent env f \<noteq> Rejected e"
    and "\<forall>u e. http_get env u \<noteq> Rejected e"
  shows "avatar_quiet a (snd (avatar_apply env a w))"
  using assms
  by (simp add: avatar_quiet_def avatar_apply_def uploadContent_def Let_def
      split: option.splits outcome.splits)

lemma displayName_apply_writes:
  assumes "\<forall>n. intent_setDisplayName env n = None"
  shows "name_writes (snd (displayName_apply env r w))
         = name_writes w + (if displayName (ghost (snd (displayName_apply env r w)))
                               = displayName (ghost w) then 0 else 1)"
    and "avatar_writes (snd (displayName_apply env r w)) = avatar_writes w"
  using assms
  by (auto simp: name_writes_def avatar_writes_def displayName_apply_def
      displayName_check_def displayName_set_def Let_def split: option.splits)

lemma avatar_apply_writes:
  assumes "\<forall>c. intent_setAvatarUrl env c = None"
    and "\<forall>f e. client_uploadContent env f \<noteq> Rejected e"
    and "\<forall>u e. http_get env u \<noteq> Rejected e"
  shows "avatar_writes (snd (avatar_apply env a w))
         = avatar_writes w + (if avatarUrl (ghost (snd (avatar_apply env a w)))
                                 = avatarUrl (ghost w) then 0 else 1)"
    and "name_writes (snd (avatar_apply env a w)) = name_writes w"
  using assms
  by (auto simp: name_writes_def avatar_writes_def avatar_apply_def uploadContent_def
      Let_def split: option.splits outcome.splits)


subsection \<open>Lookups\<close>

text \<open>
  The two synchronisations read a lookup result through its profile only, and they
  touch neither the cache nor the handle of the request in flight.
\<close>

lemma resolved_by_view:
  "profile_view r = profile_view r' \<Longrightarrow> resolved_name m r = resolved_name m r'"
  "profile_view r = profile_view r' \<Longrightarrow> resolved_avatar r = resolved_avatar r'"
  by (auto simp: profile_view_def resolved_name_def resolved_avatar_def
      getDisplayname_result_def lookupAvatarUrl_result_def split: sum.splits option.splits)

lemma stable_lookup:
  assumes "stable_user env w = Some r"
  shows "\<exists>s. lookupUserInfo_start slackUserId token w = (s, w)
            \<and> (\<forall>w'. lookupUserInfo_finish env s w' = (r, w'))"
  using assms
  by (auto simp: stable_user_def lookupUserInfo_start_def lookupUserInfo_finish_def
      lookupUserInfo_resume_def split: option.splits outcome.splits)

lemma lookup_once:
  assumes "lookupUserInfo_start uid tok w = (s, w1)" and "same_lookup w1 w2"
    and "lookupUserInfo_finish env s w2 = (r, w3)"
  shows "\<exists>r'. stable_user env w3 = Some r' \<and> profile_view r' = profile_view r"
  using assms
  by (auto simp: lookupUserInfo_start_def lookupUserInfo_finish_def lookupUserInfo_resume_def
      same_lookup_def stable_user_def profile_view_def Let_def
      split: option.splits outcome.splits)

lemma lookup_twice:
  assumes "lookupUserInfo_start uid tok w = (s1, w1)"
    and "lookupUserInfo_start uid tok w1 = (s2, w2)"
    and "lookupUserInfo_finish env s1 w2 = (r1, w3)"
    and "same_lookup w3 w4"
    and "lookupUserInfo_finish env s2 w4 = (r2, w5)"
  shows "w5 = w4 \<and> profile_view r2 = profile_view r1
         \<and> (\<exists>r'. stable_user env w4 = Some r' \<and> profile_view r' = profile_view r1)"
proof -
  note defs = lookupUserInfo_start_def lookupUserInfo_finish_def lookupUserInfo_resume_def
    same_lookup_def stable_user_def profile_view_def Let_def
  have a: "w5 = w4"
    using assms by (auto simp: defs split: option.splits outcome.splits)
  have b: "profile_view r2 = profile_view r1"
    using assms by (auto simp: defs split: option.splits outcome.splits)
  have c: "\<exists>r'. stable_user env w4 = Some r' \<and> profile_view r' = profile_view r1"
    using assms by (auto simp: defs split: option.splits outcome.splits) metis
  from a b c show ?thesis by simp
qed

subsection \<open>update\<close>

lemma check_then_set:
  "updateDisplayname_finish env (fst (displayName_check r w)) (snd (displayName_check r w))
   = displayName_apply env r w"
  by (simp add: updateDisplayname_finish_def displayName_apply_def displayName_check_def
      split: option.splits)

lemma start_after_check:
  "lookupUserInfo_start uid tok (snd (displayName_check r w))
   = (fst (lookupUserInfo_start uid tok w),
      snd (displayName_check r (snd (lookupUserInfo_start uid tok w))))"
  "fst (displayName_check r (snd (lookupUserInfo_start uid tok w))) = fst (displayName_check r w)"
  by (simp_all add: displayName_check_def lookupUserInfo_start_def Let_def split: option.splits)

lemma update_inline_name:
  assumes "AccessToken room = Some token" "token \<noteq> []" "truthy (user_name m)"
    and "lookupUserInfo_start (user_id m) token w = (s, w1)"
    and "lookupUserInfo_finish env s (snd (displayName_apply env (user_name m) w1)) = (r, w3)"
  shows "update env m room w = snd (avatar_apply env (resolved_avatar r) w3)"
proof -
  obtain k w0 where k: "displayName_check (user_name m) w = (k, w0)"
    by (cases "displayName_check (user_name m) w")
  have 1: "lookupUserInfo_start (user_id m) token w0 = (s, snd (displayName_check (user_name m) w1))"
    using start_after_check(1)[of "user_id m" token "user_name m" w] assms(4) k by simp
  have 2: "fst (displayName_check (user_name m) w1) = k"
    using start_after_check(2)[of "user_name m" "user_id m" token w] assms(4) k by simp
  have 3: "updateDisplayname_finish env k (snd (displayName_check (user_name m) w1))
           = displayName_apply env (user_name m) w1"
    using check_then_set[of env "user_name m" w1] 2 by simp
  show ?thesis
    using assms k 1 3
    by (cases r)
      (simp_all add: update_def updateDisplayname_start_def updateAvatar_start_def
        updateAvatar_finish_def split_beta resolved_avatar_def)
qed

lemma update_looked_up_name:
  assumes "AccessToken room = Some token" "token \<noteq> []" "\<not> truthy (user_name m)"
    and s1: "lookupUserInfo_start (user_id m) token w = (s1, w1)"
    and s2: "lookupUserInfo_start (user_id m) token w1 = (s2, w2)"
    and r1: "lookupUserInfo_finish env s1 w2 = (r1, w3)"
    and r2: "lookupUserInfo_finish env s2
               (snd (displayName_apply env (resolved_name m r1) w3)) = (r2, w5)"
  shows "update env m room w = snd (avatar_apply env (resolved_avatar r2) w5)"
proof -
  define w4 where "w4 = snd (displayName_apply env (resolved_name m r1) w3)"
  have n: "snd (updateDisplayname_finish env (NameLookup s1) w2) = w4"
    using r1 assms(3)
    by (cases r1) (simp_all add: updateDisplayname_finish_def w4_def resolved_name_def)
  have a: "snd (updateAvatar_finish env (AvatarLookup s2) w4)
           = snd (avatar_apply env (resolved_avatar r2) w5)"
    using r2 by (cases r2) (simp_all add: updateAvatar_finish_def resolved_avatar_def w4_def)
  have "update env m room w = snd (updateAvatar_finish env (AvatarLookup s2) w4)"
    using assms(1-3) s1 s2 n
    by (simp add: update_def updateDisplayname_start_def updateAvatar_start_def split_beta)
  with a show ?thesis by simp
qed

lemma update_no_token:
  "AccessToken room = None \<or> AccessToken room = Some [] \<Longrightarrow> update env m room w = w"
  by (auto simp: update_def updateDisplayname_start_def updateAvatar_start_def
      updateDisplayname_finish_def updateAvatar_finish_def)

lemma stable_user_cong: "same_lookup w w' \<Longrightarrow> stable_user env w = stable_user env w'"
  by (auto simp: same_lookup_def stable_user_def split: option.splits)

lemma name_quiet_cong:
  "displayName (ghost w) = displayName (ghost w') \<Longrightarrow> name_quiet r w = name_quiet r w'"
  by (simp add: name_quiet_def)

lemma writes_cong:
  "intent_calls w = intent_calls w' \<Longrightarrow> name_writes w = name_writes w'"
  "intent_calls w = intent_calls w' \<Longrightarrow> avatar_writes w = avatar_writes w'"
  by (simp_all add: name_writes_def avatar_writes_def)

lemma update_quiet:
  assumes tok: "AccessToken room = Some token" "token \<noteq> []" and q: "quiet env m w"
  shows "update env m room w = w"
proof -
  from q obtain r where r: "stable_user env w = Some r"
    and nq: "name_quiet (resolved_name m r) w" and aq: "avatar_quiet (resolved_avatar r) w"
    by (auto simp: quiet_def split: option.splits)
  from stable_lookup[OF r] obtain s where
    s: "lookupUserInfo_start (user_id m) token w = (s, w)"
    and f: "\<And>w'. lookupUserInfo_finish env s w' = (r, w')"
    by blast
  have n: "displayName_apply env (resolved_name m r) w = (Inr (), w)"
    using nq by (rule displayName_apply_quiet)
  have a: "avatar_apply env (resolved_avatar r) w = (Inr (), w)"
    using aq by (rule avatar_apply_quiet)
  show ?thesis
  proof (cases "truthy (user_name m)")
    case True
    then have "resolved_name m r = user_name m" by (simp add: resolved_name_def)
    with n have "lookupUserInfo_finish env s (snd (displayName_apply env (user_name m) w)) = (r, w)"
      using f by simp
    from update_inline_name[OF tok True s this] a show ?thesis by simp
  next
    case False
    from n f have "lookupUserInfo_finish env s
        (snd (displayName_apply env (resolved_name m r) w)) = (r, w)" by simp
    from update_looked_up_name[OF tok False s s f this] a show ?thesis by simp
  qed
qed

lemma update_settles:
  assumes tok: "AccessToken room = Some token" "token \<noteq> []"
    and n: "\<forall>n. intent_setDisplayName env n = None"
    and a: "\<forall>c. intent_setAvatarUrl env c = None"
           "\<forall>f e. client_uploadContent env f \<noteq> Rejected e"
           "\<forall>u e. http_get env u \<noteq> Rejected e"
  shows "quiet env m (update env m room w)"
proof (cases "truthy (user_name m)")
  case True
  obtain s w1 where s: "lookupUserInfo_start (user_id m) token w = (s, w1)"
    by (cases "lookupUserInfo_start (user_id m) token w")
  define w2 where "w2 = snd (displayName_apply env (user_name m) w1)"
  obtain r w3 where f: "lookupUserInfo_finish env s w2 = (r, w3)"
    by (cases "lookupUserInfo_finish env s w2")
  define wf where "wf = snd (avatar_apply env (resolved_avatar r) w3)"
  have u: "update env m room w = wf"
    using update_inline_name[OF tok True s] f by (simp add: w2_def wf_def)
  have "same_lookup w1 w2" by (simp add: same_lookup_def w2_def)
  from lookup_once[OF s this f] obtain r' where
    r': "stable_user env w3 = Some r'" "profile_view r' = profile_view r" by blast
  have "same_lookup wf w3" by (simp add: same_lookup_def wf_def)
  from stable_user_cong[OF this, of env] r' have st: "stable_user env wf = Some r'" by simp
  have w3: "w3 = snd (lookupUserInfo_finish env s w2)" using f by simp
  have "name_quiet (user_name m) w2"
    unfolding w2_def by (rule displayName_apply_settles[OF n])
  moreover have "displayName (ghost wf) = displayName (ghost w2)"
    by (simp add: wf_def w3)
  ultimately have nq: "name_quiet (resolved_name m r') wf"
    using True name_quiet_cong[of wf w2 "user_name m"] by (simp add: resolved_name_def)
  have "avatar_quiet (resolved_avatar r) wf"
    unfolding wf_def by (rule avatar_apply_settles[OF a])
  then have aq: "avatar_quiet (resolved_avatar r') wf"
    using resolved_by_view(2)[OF r'(2)] by simp
  from st nq aq u show ?thesis by (simp add: quiet_def)
next
  case False
  obtain s1 w1 where s1: "lookupUserInfo_start (user_id m) token w = (s1, w1)"
    by (cases "lookupUserInfo_start (user_id m) token w")
  obtain s2 w2 where s2: "lookupUserInfo_start (user_id m) token w1 = (s2, w2)"
    by (cases "lookupUserInfo_start (user_id m) token w1")
  obtain r1 w3 where r1: "lookupUserInfo_finish env s1 w2 = (r1, w3)"
    by (cases "lookupUserInfo_finish env s1 w2")
  define w4 where "w4 = snd (displayName_apply env (resolved_name m r1) w3)"
  obtain r2 w5 where r2: "lookupUserInfo_finish env s2 w4 = (r2, w5)"
    by (cases "lookupUserInfo_finish env s2 w4")
  define wf where "wf = snd (avatar_apply env (resolved_avatar r2) w5)"
  have u: "update env m room w = wf"
    using update_looked_up_name[OF tok False s1 s2 r1] r2 by (simp add: w4_def wf_def)
  have "same_lookup w3 w4" by (simp add: same_lookup_def w4_def)
  from lookup_twice[OF s1 s2 r1 this r2] obtain r' where
    w5: "w5 = w4" and v2: "profile_view r2 = profile_view r1"
    and r': "stable_user env w4 = Some r'" "profile_view r' = profile_view r1" by blast
  have "same_lookup wf w4" by (simp add: same_lookup_def wf_def w5)
  from stable_user_cong[OF this, of env] r' have st: "stable_user env wf = Some r'" by simp
  have "name_quiet (resolved_name m r1) w4"
    unfolding w4_def by (rule displayName_apply_settles[OF n])
  moreover have "displayName (ghost wf) = displayName (ghost w4)"
    by (simp add: wf_def w5)
  ultimately have nq: "name_quiet (resolved_name m r') wf"
    using resolved_by_view(1)[OF r'(2), of m] name_quiet_cong[of wf w4 "resolved_name m r1"]
    by simp
  have "avatar_quiet (resolved_avatar r2) wf"
    unfolding wf_def by (rule avatar_apply_settles[OF a])
  then have aq: "avatar_quiet (resolved_avatar r') wf"
    using resolved_by_view(2)[of r' r2] r'(2) v2 by simp
  from st nq aq u show ?thesis by (simp add: quiet_def)
qed


lemma lookup_writes [simp]:
  "name_writes (snd (lookupUserInfo_start uid tok w)) = name_writes w"
  "avatar_writes (snd (lookupUserInfo_start uid tok w)) = avatar_writes w"
  "name_writes (snd (lookupUserInfo_finish env s w)) = name_writes w"
  "avatar_writes (snd (lookupUserInfo_finish env s w)) = avatar_writes w"
  by (simp_all add: name_writes_def avatar_writes_def)

lemma update_writes:
  assumes n: "\<forall>n. intent_setDisplayName env n = None"
    and a: "\<forall>c. intent_setAvatarUrl env c = None"
           "\<forall>f e. client_uploadContent env f \<noteq> Rejected e"
           "\<forall>u e. http_get env u \<noteq> Rejected e"
  shows "name_writes (update env m room w)
         = name_writes w + (if displayName (ghost (update env m room w)) = displayName (ghost w)
                            then 0 else 1)
       \<and> avatar_writes (update env m room w)
         = avatar_writes w + (if avatarUrl (ghost (update env m room w)) = avatarUrl (ghost w)
                              then 0 else 1)"
proof (cases "AccessToken room = None \<or> AccessToken room = Some []")
  case True
  then show ?thesis by (simp add: update_no_token)
next
  case False
  then obtain token where tok: "AccessToken room = Some token" "token \<noteq> []" by auto
  show ?thesis
  proof (cases "truthy (user_name m)")
    case True
    define w1 where "w1 = snd (lookupUserInfo_start (user_id m) token w)"
    define s where "s = fst (lookupUserInfo_start (user_id m) token w)"
    define w2 where "w2 = snd (displayName_apply env (user_name m) w1)"
    define w3 where "w3 = snd (lookupUserInfo_finish env s w2)"
    define r where "r = fst (lookupUserInfo_finish env s w2)"
    have u: "update env m room w = snd (avatar_apply env (resolved_avatar r) w3)"
      by (rule update_inline_name[OF tok True, of _ s w1]) (simp_all add: s_def w1_def r_def w3_def w2_def)
    show ?thesis
      unfolding u
      using displayName_apply_writes[OF n, of "user_name m" w1]
        avatar_apply_writes[OF a, of "resolved_avatar r" w3]
      by (simp add: w3_def w2_def[symmetric]) (simp add: w2_def w1_def)
  next
    case F: False
    define w1 where "w1 = snd (lookupUserInfo_start (user_id m) token w)"
    define s1 where "s1 = fst (lookupUserInfo_start (user_id m) token w)"
    define w2 where "w2 = snd (lookupUserInfo_start (user_id m) token w1)"
    define s2 where "s2 = fst (lookupUserInfo_start (user_id m) token w1)"
    define w3 where "w3 = snd (lookupUserInfo_finish env s1 w2)"
    define r1 where "r1 = fst (lookupUserInfo_finish env s1 w2)"
    define w4 where "w4 = snd (displayName_apply env (resolved_name m r1) w3)"
    define w5 where "w5 = snd (lookupUserInfo_finish env s2 w4)"
    define r2 where "r2 = fst (lookupUserInfo_finish env s2 w4)"
    have u: "update env m room w = snd (avatar_apply env (resolved_avatar r2) w5)"
      by (rule update_looked_up_name[OF tok F, of _ s1 w1 s2 w2 _ r1 w3])
        (simp_all add: s1_def w1_def s2_def w2_def r1_def w3_def r2_def w5_def w4_def)
    show ?thesis
      unfolding u
      using displayName_apply_writes[OF n, of "resolved_name m r1" w3]
        avatar_apply_writes[OF a, of "resolved_avatar r2" w5]
      by (simp add: w5_def w4_def[symmetric]) (simp add: w4_def w3_def w2_def w1_def)
  qed
qed

text \<open>
  What one \<open>update\<close> writes, from its input: the name and the avatar it resolves from the
  event and from the looked-up user decide the writes and the stored fields.
\<close>

lemma displayName_apply_effect:
  assumes "\<forall>n. intent_setDisplayName env n = None"
  shows "name_writes (snd (displayName_apply env r w))
         = name_writes w + (if name_quiet r w then 0 else 1)"
    and "displayName (ghost (snd (displayName_apply env r w)))
         = (if truthy r then r else displayName (ghost w))"
  using assms
  by (auto simp: name_writes_def name_quiet_def truthy_def displayName_apply_def
      displayName_check_def displayName_set_def Let_def split: option.splits)

lemma avatar_apply_effect:
  assumes "\<forall>c. intent_setAvatarUrl env c = None"
    and "\<forall>f e. client_uploadContent env f \<noteq> Rejected e"
    and "\<forall>u e. http_get env u \<noteq> Rejected e"
  shows "avatar_writes (snd (avatar_apply env a w))
         = avatar_writes w + (if avatar_quiet a w then 0 else 1)"
    and "avatarUrl (ghost (snd (avatar_apply env a w)))
         = (if avatar_quiet a w then avatarUrl (ghost w) else a)"
  using assms
  by (auto simp: avatar_writes_def avatar_quiet_def avatar_apply_def uploadContent_def
      Let_def split: option.splits outcome.splits)

lemma lookupUserInfo_finish_fst:
  "fst (lookupUserInfo_finish env s w) = fst (lookupUserInfo_finish env s w')"
  by (simp add: lookupUserInfo_finish_def lookupUserInfo_resume_def
      split: started.splits outcome.splits lookup_await.splits option.splits)

lemma quiet_by_field:
  "displayName (ghost w) = displayName (ghost w') \<Longrightarrow> name_quiet r w = name_quiet r w'"
  "avatarUrl (ghost w) = avatarUrl (ghost w') \<Longrightarrow> avatar_quiet a w = avatar_quiet a w'"
  by (simp_all add: name_quiet_def avatar_quiet_def split: option.splits)

lemma update_effect:
  assumes tok: "AccessToken room = Some token" "token \<noteq> []"
    and n: "\<forall>n. intent_setDisplayName env n = None"
    and a: "\<forall>c. intent_setAvatarUrl env c = None"
           "\<forall>f e. client_uploadContent env f \<noteq> Rejected e"
           "\<forall>u e. http_get env u \<noteq> Rejected e"
    and r: "r = fst (lookupUserInfo env (user_id m) token w)"
  shows "name_writes (update env m room w)
         = name_writes w + (if name_quiet (resolved_name m r) w then 0 else 1)"
    and "displayName (ghost (update env m room w))
         = (if truthy (resolved_name m r) then resolved_name m r else displayName (ghost w))"
    and "avatar_writes (update env m room w)
         = avatar_writes w + (if avatar_quiet (resolved_avatar r) w then 0 else 1)"
    and "avatarUrl (ghost (update env m room w))
         = (if avatar_quiet (resolved_avatar r) w then avatarUrl (ghost w)
            else resolved_avatar r)"
proof -
  define w1 where "w1 = snd (lookupUserInfo_start (user_id m) token w)"
  define s1 where "s1 = fst (lookupUserInfo_start (user_id m) token w)"
  have r1: "r = fst (lookupUserInfo_finish env s1 w')" for w'
    using lookupUserInfo_finish_fst[of env s1 w' w1]
    by (simp add: r lookupUserInfo_def split_beta s1_def w1_def)
  have fr1: "displayName (ghost w1) = displayName (ghost w)"
    "avatarUrl (ghost w1) = avatarUrl (ghost w)"
    "name_writes w1 = name_writes w" "avatar_writes w1 = avatar_writes w"
    by (simp_all add: w1_def)
  have goal: "name_writes (update env m room w)
         = name_writes w + (if name_quiet (resolved_name m r) w then 0 else 1)
    \<and> displayName (ghost (update env m room w))
         = (if truthy (resolved_name m r) then resolved_name m r else displayName (ghost w))
    \<and> avatar_writes (update env m room w)
         = avatar_writes w + (if avatar_quiet (resolved_avatar r) w then 0 else 1)
    \<and> avatarUrl (ghost (update env m room w))
         = (if avatar_quiet (resolved_avatar r) w then avatarUrl (ghost w)
            else resolved_avatar r)"
  proof (cases "truthy (user_name m)")
    case True
    define w2 where "w2 = snd (displayName_apply env (user_name m) w1)"
    define w3 where "w3 = snd (lookupUserInfo_finish env s1 w2)"
    have u: "update env m room w = snd (avatar_apply env (resolved_avatar r) w3)"
      by (rule update_inline_name[OF tok True, of _ s1 w1])
        (simp_all add: s1_def w1_def r1[of w2] w3_def w2_def)
    have rn: "resolved_name m r = user_name m"
      using True by (simp add: resolved_name_def)
    have fr3: "displayName (ghost w3) = displayName (ghost w2)"
      "avatarUrl (ghost w3) = avatarUrl (ghost w1)"
      "name_writes w3 = name_writes w2" "avatar_writes w3 = avatar_writes w1"
      using displayName_apply_writes(2)[OF n, of "user_name m" w1]
      by (simp_all add: w3_def w2_def)
    have q: "name_quiet (user_name m) w1 = name_quiet (user_name m) w"
      "avatar_quiet (resolved_avatar r) w3 = avatar_quiet (resolved_avatar r) w"
      using quiet_by_field(1)[OF fr1(1)] quiet_by_field(2)[of w3 w] fr3(2) fr1(2)
      by simp_all
    show ?thesis
      unfolding u rn
      using displayName_apply_effect[OF n, of "user_name m" w1]
        avatar_apply_effect[OF a, of "resolved_avatar r" w3]
        avatar_apply_writes(2)[OF a, of "resolved_avatar r" w3]
        avatar_apply_frame(3)[of env "resolved_avatar r" w3]
        fr1 fr3 q
      by (simp add: w2_def[symmetric])
  next
    case False
    define w2 where "w2 = snd (lookupUserInfo_start (user_id m) token w1)"
    define s2 where "s2 = fst (lookupUserInfo_start (user_id m) token w1)"
    define w3 where "w3 = snd (lookupUserInfo_finish env s1 w2)"
    define w4 where "w4 = snd (displayName_apply env (resolved_name m r) w3)"
    define w5 where "w5 = snd (lookupUserInfo_finish env s2 w4)"
    define r2 where "r2 = fst (lookupUserInfo_finish env s2 w4)"
    have u: "update env m room w = snd (avatar_apply env (resolved_avatar r2) w5)"
      by (rule update_looked_up_name[OF tok False, of _ s1 w1 s2 w2 _ r w3])
        (simp_all add: s1_def w1_def s2_def w2_def r1[of w2] w3_def r2_def w5_def w4_def)
    have "same_lookup w3 w4" by (simp add: same_lookup_def w4_def)
    from lookup_twice[of "user_id m" token w s1 w1 s2 w2 env r w3 w4 r2 w5, OF _ _ _ this]
    have v: "w5 = w4" "profile_view r2 = profile_view r"
      by (simp_all add: s1_def w1_def s2_def w2_def r1[of w2] w3_def r2_def w5_def)
    have ra: "resolved_avatar r2 = resolved_avatar r"
      using resolved_by_view(2)[OF v(2)] .
    have fr3: "displayName (ghost w3) = displayName (ghost w)"
      "avatarUrl (ghost w3) = avatarUrl (ghost w)"
      "name_writes w3 = name_writes w" "avatar_writes w3 = avatar_writes w"
      by (simp_all add: w3_def w2_def fr1)
    have fr4: "avatarUrl (ghost w4) = avatarUrl (ghost w)"
      "avatar_writes w4 = avatar_writes w"
      using displayName_apply_writes(2)[OF n, of "resolved_name m r" w3] fr3
      by (simp_all add: w4_def)
    have q: "name_quiet (resolved_name m r) w3 = name_quiet (resolved_name m r) w"
      "avatar_quiet (resolved_avatar r) w4 = avatar_quiet (resolved_avatar r) w"
      using quiet_by_field(1)[OF fr3(1)] quiet_by_field(2)[OF fr4(1)]
      by simp_all
    show ?thesis
      unfolding u ra v(1)
      using displayName_apply_effect[OF n, of "resolved_name m r" w3]
        avatar_apply_effect[OF a, of "resolved_avatar r" w4]
        avatar_apply_writes(2)[OF a, of "resolved_avatar r" w4]
        avatar_apply_frame(3)[of env "resolved_avatar r" w4]
        fr3 fr4 q
      by (simp add: w4_def[symmetric])
  qed
  from goal show "name_writes (update env m room w)
         = name_writes w + (if name_quiet (resolved_name m r) w then 0 else 1)"
    and "displayName (ghost (update env m room w))
         = (if truthy (resolved_name m r) then resolved_name m r else displayName (ghost w))"
    and "avatar_writes (update env m room w)
         = avatar_writes w + (if avatar_quiet (resolved_avatar r) w then 0 else 1)"
    and "avatarUrl (ghost (update env m room w))
         = (if avatar_quiet (resolved_avatar r) w then avatarUrl (ghost w)
            else resolved_avatar r)"
    by simp_all
qed

text \<open>
  C4. When the puppet and the media calls succeed, a second \<open>update\<close> with the same event
  right after the first changes nothing at all: no puppet call, no record update, no
  store write, no request. Over the two calls there is exactly one \<open>setDisplayName\<close>
  if the first call changed the stored display name and none otherwise, and exactly
  one \<open>setAvatarUrl\<close> if it changed the stored avatar and none otherwise. In a room
  with a token the writes follow from the event and the profile: a name on the event
  that is not empty and differs from the stored one is written exactly once and
  stored, and so is a name that \<open>getDisplayname\<close> returns for an event without a name;
  an image that \<open>lookupAvatarUrl\<close> returns, that is not empty, differs from the stored
  one and has a last path segment is written exactly once and stored.
\<close>

theorem update_twice:
  assumes n: "\<forall>n. intent_setDisplayName env n = None"
    and a: "\<forall>c. intent_setAvatarUrl env c = None"
           "\<forall>f e. client_uploadContent env f \<noteq> Rejected e"
           "\<forall>u e. http_get env u \<noteq> Rejected e"
  shows "update env m room (update env m room w) = update env m room w
       \<and> name_writes (update env m room (update env m room w))
         = name_writes w + (if displayName (ghost (update env m room w)) = displayName (ghost w)
                            then 0 else 1)
       \<and> avatar_writes (update env m room (update env m room w))
         = avatar_writes w + (if avatarUrl (ghost (update env m room w)) = avatarUrl (ghost w)
                              then 0 else 1)
       \<and> (\<forall>token nm.
             AccessToken room = Some token \<and> token \<noteq> []
             \<and> user_name m = Some nm \<and> nm \<noteq> [] \<and> displayName (ghost w) \<noteq> Some nm \<longrightarrow>
             name_writes (update env m room (update env m room w)) = name_writes w + 1
             \<and> displayName (ghost (update env m room (update env m room w))) = Some nm)
       \<and> (\<forall>token nm.
             AccessToken room = Some token \<and> token \<noteq> []
             \<and> \<not> truthy (user_name m)
             \<and> fst (getDisplayname env (user_id m) token w) = Inr (Some nm)
             \<and> nm \<noteq> [] \<and> displayName (ghost w) \<noteq> Some nm \<longrightarrow>
             name_writes (update env m room (update env m room w)) = name_writes w + 1
             \<and> displayName (ghost (update env m room (update env m room w))) = Some nm)
       \<and> (\<forall>token url.
             AccessToken room = Some token \<and> token \<noteq> []
             \<and> fst (lookupAvatarUrl env (user_id m) token w) = Inr (Some url)
             \<and> url \<noteq> [] \<and> avatarUrl (ghost w) \<noteq> Some url \<and> shortname url \<noteq> None \<longrightarrow>
             avatar_writes (update env m room (update env m room w)) = avatar_writes w + 1
             \<and> avatarUrl (ghost (update env m room (update env m room w))) = Some url)"
proof -
  have idem: "update env m room (update env m room w) = update env m room w"
  proof (cases "AccessToken room = None \<or> AccessToken room = Some []")
    case True
    then show ?thesis by (simp add: update_no_token)
  next
    case False
    then obtain token where tok: "AccessToken room = Some token" "token \<noteq> []" by auto
    from update_settles[OF tok n a] show ?thesis by (rule update_quiet[OF tok])
  qed
  have inline: "name_writes (update env m room w) = name_writes w + 1
      \<and> displayName (ghost (update env m room w)) = Some nm"
    if h: "AccessToken room = Some token \<and> token \<noteq> []
         \<and> user_name m = Some nm \<and> nm \<noteq> [] \<and> displayName (ghost w) \<noteq> Some nm"
    for token nm
  proof -
    from h have "resolved_name m (fst (lookupUserInfo env (user_id m) token w)) = Some nm"
      by (simp add: resolved_name_def truthy_def)
    with h update_effect(1,2)[OF _ _ n a refl, of room token m w] show ?thesis
      by (simp add: name_quiet_def truthy_def)
  qed
  have looked_up: "name_writes (update env m room w) = name_writes w + 1
      \<and> displayName (ghost (update env m room w)) = Some nm"
    if h: "AccessToken room = Some token \<and> token \<noteq> []
         \<and> \<not> truthy (user_name m)
         \<and> fst (getDisplayname env (user_id m) token w) = Inr (Some nm)
         \<and> nm \<noteq> [] \<and> displayName (ghost w) \<noteq> Some nm"
    for token nm
  proof -
    from h have "resolved_name m (fst (lookupUserInfo env (user_id m) token w)) = Some nm"
      by (auto simp: resolved_name_def getDisplayname_def split: prod.splits sum.splits)
    with h update_effect(1,2)[OF _ _ n a refl, of room token m w] show ?thesis
      by (simp add: name_quiet_def truthy_def)
  qed
  have avatar: "avatar_writes (update env m room w) = avatar_writes w + 1
      \<and> avatarUrl (ghost (update env m room w)) = Some url"
    if h: "AccessToken room = Some token \<and> token \<noteq> []
         \<and> fst (lookupAvatarUrl env (user_id m) token w) = Inr (Some url)
         \<and> url \<noteq> [] \<and> avatarUrl (ghost w) \<noteq> Some url \<and> shortname url \<noteq> None"
    for token url
  proof -
    from h have "resolved_avatar (fst (lookupUserInfo env (user_id m) token w)) = Some url"
      by (auto simp: resolved_avatar_def lookupAvatarUrl_def split: prod.splits sum.splits)
    with h update_effect(3,4)[OF _ _ n a refl, of room token m w] show ?thesis
      by (simp add: avatar_quiet_def)
  qed
  from update_writes[OF n a, of m room w]
  have nw: "name_writes (update env m room w)
      = name_writes w + (if displayName (ghost (update env m room w)) = displayName (ghost w)
                         then 0 else 1)"
    and aw: "avatar_writes (update env m room w)
      = avatar_writes w + (if avatarUrl (ghost (update env m room w)) = avatarUrl (ghost w)
                           then 0 else 1)"
    by blast+
  show ?thesis
    unfolding idem
  proof (intro conjI allI impI)
    show "update env m room w = update env m room w" by (rule refl)
  next
    show "name_writes (update env m room w)
      = name_writes w + (if displayName (ghost (update env m room w)) = displayName (ghost w)
                         then 0 else 1)"
      by (rule nw)
  next
    show "avatar_writes (update env m room w)
      = avatar_writes w + (if avatarUrl (ghost (update env m room w)) = avatarUrl (ghost w)
                           then 0 else 1)"
      by (rule aw)
  qed (use inline looked_up avatar in blast)+
qed

text \<open>
  A ghost stored as \<open>"Bob"\<close> without avatar, whose profile has the display name \<open>"Alan"\<close>
  and the image \<open>https://a.example/b.png\<close>. With the event
  \<open>{user_id: "U1", user_name: "Alice"}\<close> two calls of \<open>update\<close> show the puppet one
  \<open>setDisplayName("Alice")\<close>, one upload and one \<open>setAvatarUrl\<close>; with the event
  \<open>{user_id: "U1"}\<close> the name is looked up, and they show it one
  \<open>setDisplayName("Alan")\<close>, one upload and one \<open>setAvatarUrl\<close>.
\<close>

theorem update_twice_witness:
  "(\<forall>n. intent_setDisplayName
          (answering (with_profile (no_profile\<lparr>display_name := Some ''Alan'', image_512 := Some ''https://a.example/b.png''\<rparr>))) n
        = None)
   \<and> (\<forall>c. intent_setAvatarUrl
          (answering (with_profile (no_profile\<lparr>display_name := Some ''Alan'', image_512 := Some ''https://a.example/b.png''\<rparr>))) c
        = None)
   \<and> (\<forall>f e. client_uploadContent
          (answering (with_profile (no_profile\<lparr>display_name := Some ''Alan'', image_512 := Some ''https://a.example/b.png''\<rparr>))) f
        \<noteq> Rejected e)
   \<and> (\<forall>u e. http_get
          (answering (with_profile (no_profile\<lparr>display_name := Some ''Alan'', image_512 := Some ''https://a.example/b.png''\<rparr>))) u
        \<noteq> Rejected e)
   \<and> displayName (ghost (new_world ghost_bob)) = Some ''Bob''
   \<and> avatarUrl (ghost (new_world ghost_bob)) = None
   \<and> name_writes (new_world ghost_bob) = 0
   \<and> avatar_writes (new_world ghost_bob) = 0
   \<and> shortname ''https://a.example/b.png'' = Some ''b.png''
   \<and> fst (getDisplayname (answering (with_profile (no_profile\<lparr>display_name := Some ''Alan'', image_512 := Some ''https://a.example/b.png''\<rparr>)))
          ''U1'' ''xoxb'' (new_world ghost_bob)) = Inr (Some ''Alan'')
   \<and> fst (lookupAvatarUrl (answering (with_profile (no_profile\<lparr>display_name := Some ''Alan'', image_512 := Some ''https://a.example/b.png''\<rparr>)))
          ''U1'' ''xoxb'' (new_world ghost_bob)) = Inr (Some ''https://a.example/b.png'')
   \<and> intent_calls
        (update (answering (with_profile (no_profile\<lparr>display_name := Some ''Alan'', image_512 := Some ''https://a.example/b.png''\<rparr>)))
           \<lparr>user_id = ''U1'', user_name = Some ''Alice''\<rparr> \<lparr>AccessToken = Some ''xoxb''\<rparr>
           (update (answering (with_profile (no_profile\<lparr>display_name := Some ''Alan'', image_512 := Some ''https://a.example/b.png''\<rparr>)))
              \<lparr>user_id = ''U1'', user_name = Some ''Alice''\<rparr> \<lparr>AccessToken = Some ''xoxb''\<rparr>
              (new_world ghost_bob)))
      = [SetDisplayName ''Alice'',
         UploadContent \<lparr>content = ''data'', title = ''b.png'', mimetype = Some ''image/png''\<rparr>,
         SetAvatarUrl (Some ''mxc://b.png'')]
   \<and> name_writes
        (update (answering (with_profile (no_profile\<lparr>display_name := Some ''Alan'', image_512 := Some ''https://a.example/b.png''\<rparr>)))
           \<lparr>user_id = ''U1'', user_name = Some ''Alice''\<rparr> \<lparr>AccessToken = Some ''xoxb''\<rparr>
           (update (answering (with_profile (no_profile\<lparr>display_name := Some ''Alan'', image_512 := Some ''https://a.example/b.png''\<rparr>)))
              \<lparr>user_id = ''U1'', user_name = Some ''Alice''\<rparr> \<lparr>AccessToken = Some ''xoxb''\<rparr>
              (new_world ghost_bob))) = 1
   \<and> avatar_writes
        (update (answering (with_profile (no_profile\<lparr>display_name := Some ''Alan'', image_512 := Some ''https://a.example/b.png''\<rparr>)))
           \<lparr>user_id = ''U1'', user_name = Some ''Alice''\<rparr> \<lparr>AccessToken = Some ''xoxb''\<rparr>
           (update (answering (with_profile (no_profile\<lparr>display_name := Some ''Alan'', image_512 := Some ''https://a.example/b.png''\<rparr>)))
              \<lparr>user_id = ''U1'', user_name = Some ''Alice''\<rparr> \<lparr>AccessToken = Some ''xoxb''\<rparr>
              (new_world ghost_bob))) = 1
   \<and> displayName (ghost
        (update (answering (with_profile (no_profile\<lparr>display_name := Some ''Alan'', image_512 := Some ''https://a.example/b.png''\<rparr>)))
           \<lparr>user_id = ''U1'', user_name = Some ''Alice''\<rparr> \<lparr>AccessToken = Some ''xoxb''\<rparr>
           (update (answering (with_profile (no_profile\<lparr>display_name := Some ''Alan'', image_512 := Some ''https://a.example/b.png''\<rparr>)))
              \<lparr>user_id = ''U1'', user_name = Some ''Alice''\<rparr> \<lparr>AccessToken = Some ''xoxb''\<rparr>
              (new_world ghost_bob)))) = Some ''Alice''
   \<and> avatarUrl (ghost
        (update (answering (with_profile (no_profile\<lparr>display_name := Some ''Alan'', image_512 := Some ''https://a.example/b.png''\<rparr>)))
           \<lparr>user_id = ''U1'', user_name = Some ''Alice''\<rparr> \<lparr>AccessToken = Some ''xoxb''\<rparr>
           (update (answering (with_profile (no_profile\<lparr>display_name := Some ''Alan'', image_512 := Some ''https://a.example/b.png''\<rparr>)))
              \<lparr>user_id = ''U1'', user_name = Some ''Alice''\<rparr> \<lparr>AccessToken = Some ''xoxb''\<rparr>
              (new_world ghost_bob)))) = Some ''https://a.example/b.png''
   \<and> \<not> truthy (user_name \<lparr>user_id = ''U1'', user_name = None\<rparr>)
   \<and> intent_calls
        (update (answering (with_profile (no_profile\<lparr>display_name := Some ''Alan'', image_512 := Some ''https://a.example/b.png''\<rparr>)))
           \<lparr>user_id = ''U1'', user_name = None\<rparr> \<lparr>AccessToken = Some ''xoxb''\<rparr>
           (update (answering (with_profile (no_profile\<lparr>display_name := Some ''Alan'', image_512 := Some ''https://a.example/b.png''\<rparr>)))
              \<lparr>user_id = ''U1'', user_name = None\<rparr> \<lparr>AccessToken = Some ''xoxb''\<rparr>
              (new_world ghost_bob)))
      = [SetDisplayName ''Alan'',
         UploadContent \<lparr>content = ''data'', title = ''b.png'', mimetype = Some ''image/png''\<rparr>,
         SetAvatarUrl (Some ''mxc://b.png'')]
   \<and> name_writes
        (update (answering (with_profile (no_profile\<lparr>display_name := Some ''Alan'', image_512 := Some ''https://a.example/b.png''\<rparr>)))
           \<lparr>user_id = ''U1'', user_name = None\<rparr> \<lparr>AccessToken = Some ''xoxb''\<rparr>
           (update (answering (with_profile (no_profile\<lparr>display_name := Some ''Alan'', image_512 := Some ''https://a.example/b.png''\<rparr>)))
              \<lparr>user_id = ''U1'', user_name = None\<rparr> \<lparr>AccessToken = Some ''xoxb''\<rparr>
              (new_world ghost_bob))) = 1
   \<and> avatar_writes
        (update (answering (with_profile (no_profile\<lparr>display_name := Some ''Alan'', image_512 := Some ''https://a.example/b.png''\<rparr>)))
           \<lparr>user_id = ''U1'', user_name = None\<rparr> \<lparr>AccessToken = Some ''xoxb''\<rparr>
           (update (answering (with_profile (no_profile\<lparr>display_name := Some ''Alan'', image_512 := Some ''https://a.example/b.png''\<rparr>)))
              \<lparr>user_id = ''U1'', user_name = None\<rparr> \<lparr>AccessToken = Some ''xoxb''\<rparr>
              (new_world ghost_bob))) = 1
   \<and> displayName (ghost
        (update (answering (with_profile (no_profile\<lparr>display_name := Some ''Alan'', image_512 := Some ''https://a.example/b.png''\<rparr>)))
           \<lparr>user_id = ''U1'', user_name = None\<rparr> \<lparr>AccessToken = Some ''xoxb''\<rparr>
           (update (answering (with_profile (no_profile\<lparr>display_name := Some ''Alan'', image_512 := Some ''https://a.example/b.png''\<rparr>)))
              \<lparr>user_id = ''U1'', user_name = None\<rparr> \<lparr>AccessToken = Some ''xoxb''\<rparr>
              (new_world ghost_bob)))) = Some ''Alan''
   \<and> avatarUrl (ghost
        (update (answering (with_profile (no_profile\<lparr>display_name := Some ''Alan'', image_512 := Some ''https://a.example/b.png''\<rparr>)))
           \<lparr>user_id = ''U1'', user_name = None\<rparr> \<lparr>AccessToken = Some ''xoxb''\<rparr>
           (update (answering (with_profile (no_profile\<lparr>display_name := Some ''Alan'', image_512 := Some ''https://a.example/b.png''\<rparr>)))
              \<lparr>user_id = ''U1'', user_name = None\<rparr> \<lparr>AccessToken = Some ''xoxb''\<rparr>
              (new_world ghost_bob)))) = Some ''https://a.example/b.png''"
proof -
  let ?env = "answering (with_profile (no_profile\<lparr>display_name := Some ''Alan'', image_512 := Some ''https://a.example/b.png''\<rparr>))"
  let ?a = "\<lparr>user_id = ''U1'', user_name = Some ''Alice''\<rparr>"
  let ?b = "\<lparr>user_id = ''U1'', user_name = None\<rparr>"
  let ?room = "\<lparr>AccessToken = Some ''xoxb''\<rparr>"
  let ?w = "new_world ghost_bob"
  let ?url = "''https://a.example/b.png''"
  have h: "\<forall>n. intent_setDisplayName ?env n = None" "\<forall>c. intent_setAvatarUrl ?env c = None"
    "\<forall>f e. client_uploadContent ?env f \<noteq> Rejected e" "\<forall>u e. http_get ?env u \<noteq> Rejected e"
    by (simp_all add: answering_def)
  have s: "shortname ?url = Some ''b.png''"
    by (simp add: shortname_def)
  have start: "displayName (ghost ?w) = Some ''Bob''" "avatarUrl (ghost ?w) = None"
    "name_writes ?w = 0" "avatar_writes ?w = 0"
    by (simp_all add: name_writes_def avatar_writes_def example_defs)
  have look: "fst (getDisplayname ?env ''U1'' ''xoxb'' ?w) = Inr (Some ''Alan'')"
    "fst (lookupAvatarUrl ?env ''U1'' ''xoxb'' ?w) = Inr (Some ?url)"
    by (simp_all add: getDisplayname_def getDisplayname_result_def lookupAvatarUrl_def
        lookupAvatarUrl_result_def lookup_defs example_defs js_or_def truthy_def Let_def)
  have calls_a: "intent_calls (update ?env ?a ?room ?w)
      = [SetDisplayName ''Alice'',
         UploadContent \<lparr>content = ''data'', title = ''b.png'', mimetype = Some ''image/png''\<rparr>,
         SetAvatarUrl (Some ''mxc://b.png'')]"
    by (simp add: update_def updateDisplayname_start_def updateDisplayname_finish_def
        updateAvatar_start_def updateAvatar_finish_def displayName_check_def displayName_set_def
        avatar_apply_def uploadContent_def lookupAvatarUrl_result_def lookupUserInfo_start_def
        lookupUserInfo_finish_def lookupUserInfo_resume_def example_defs js_or_def truthy_def
        Let_def s)
  have calls_b: "intent_calls (update ?env ?b ?room ?w)
      = [SetDisplayName ''Alan'',
         UploadContent \<lparr>content = ''data'', title = ''b.png'', mimetype = Some ''image/png''\<rparr>,
         SetAvatarUrl (Some ''mxc://b.png'')]"
    by (simp add: update_def updateDisplayname_start_def updateDisplayname_finish_def
        updateAvatar_start_def updateAvatar_finish_def displayName_check_def displayName_set_def
        displayName_apply_def getDisplayname_result_def
        avatar_apply_def uploadContent_def lookupAvatarUrl_result_def lookupUserInfo_start_def
        lookupUserInfo_finish_def lookupUserInfo_resume_def example_defs js_or_def truthy_def
        Let_def s)
  have t: "\<not> truthy (user_name ?b)"
    by (simp add: truthy_def)
  let ?a1 = "update ?env ?a ?room ?w"
  let ?a2 = "update ?env ?a ?room ?a1"
  let ?b1 = "update ?env ?b ?room ?w"
  let ?b2 = "update ?env ?b ?room ?b1"
  from update_twice[OF h, of ?a ?room ?w]
  have idem_a: "?a2 = ?a1"
    and inline: "AccessToken ?room = Some ''xoxb'' \<and> ''xoxb'' \<noteq> []
        \<and> user_name ?a = Some ''Alice'' \<and> ''Alice'' \<noteq> [] \<and> displayName (ghost ?w) \<noteq> Some ''Alice''
      \<longrightarrow> name_writes ?a2 = name_writes ?w + 1 \<and> displayName (ghost ?a2) = Some ''Alice''"
    and avatar_a: "AccessToken ?room = Some ''xoxb'' \<and> ''xoxb'' \<noteq> []
        \<and> fst (lookupAvatarUrl ?env (user_id ?a) ''xoxb'' ?w) = Inr (Some ?url)
        \<and> ?url \<noteq> [] \<and> avatarUrl (ghost ?w) \<noteq> Some ?url \<and> shortname ?url \<noteq> None
      \<longrightarrow> avatar_writes ?a2 = avatar_writes ?w + 1 \<and> avatarUrl (ghost ?a2) = Some ?url"
    by blast+
  from update_twice[OF h, of ?b ?room ?w]
  have idem_b: "?b2 = ?b1"
    and looked_up: "AccessToken ?room = Some ''xoxb'' \<and> ''xoxb'' \<noteq> []
        \<and> \<not> truthy (user_name ?b)
        \<and> fst (getDisplayname ?env (user_id ?b) ''xoxb'' ?w) = Inr (Some ''Alan'')
        \<and> ''Alan'' \<noteq> [] \<and> displayName (ghost ?w) \<noteq> Some ''Alan''
      \<longrightarrow> name_writes ?b2 = name_writes ?w + 1 \<and> displayName (ghost ?b2) = Some ''Alan''"
    and avatar_b: "AccessToken ?room = Some ''xoxb'' \<and> ''xoxb'' \<noteq> []
        \<and> fst (lookupAvatarUrl ?env (user_id ?b) ''xoxb'' ?w) = Inr (Some ?url)
        \<and> ?url \<noteq> [] \<and> avatarUrl (ghost ?w) \<noteq> Some ?url \<and> shortname ?url \<noteq> None
      \<longrightarrow> avatar_writes ?b2 = avatar_writes ?w + 1 \<and> avatarUrl (ghost ?b2) = Some ?url"
    by blast+
  from inline start have na: "name_writes ?a2 = 1" "displayName (ghost ?a2) = Some ''Alice''"
    by simp_all
  from avatar_a start look s have aa: "avatar_writes ?a2 = 1" "avatarUrl (ghost ?a2) = Some ?url"
    by simp_all
  from looked_up start look t have nb: "name_writes ?b2 = 1" "displayName (ghost ?b2) = Some ''Alan''"
    by simp_all
  from avatar_b start look s have ab: "avatar_writes ?b2 = 1" "avatarUrl (ghost ?b2) = Some ?url"
    by simp_all
  from idem_a calls_a have ca: "intent_calls ?a2
      = [SetDisplayName ''Alice'',
         UploadContent \<lparr>content = ''data'', title = ''b.png'', mimetype = Some ''image/png''\<rparr>,
         SetAvatarUrl (Some ''mxc://b.png'')]"
    by simp
  from idem_b calls_b have cb: "intent_calls ?b2
      = [SetDisplayName ''Alan'',
         UploadContent \<lparr>content = ''data'', title = ''b.png'', mimetype = Some ''image/png''\<rparr>,
         SetAvatarUrl (Some ''mxc://b.png'')]"
    by simp
  from h start s look ca na aa t cb nb ab show ?thesis by (intro conjI) simp_all
qed

section \<open>Properties of sendText\<close>

text \<open>
  C7. The claim: every self-mention link in the text is rewritten to its display text. The
  code does not do this when a line holds two links. Each \<open>.+\<close> of the pattern is
  greedy, so the one match runs from the start of the first link to the end of the
  last, and all of it is replaced by the display text of the last link: for the text
  below the body is \<open>C\<close>, not \<open>A and C\<close>. The formatter receives the text unchanged.
\<close>

theorem sendText_two_mentions:
  "intent_calls (snd (sendText (answering r) ''!room''
      ''<https://matrix.to/#/@a:b|A> and <https://matrix.to/#/@c:d|C>'' ''C0'' 1
      (new_world ghost_bob)))
   = [SendMessage ''!room''
        \<lparr>msg_body = ''C'', msgtype = ''m.text'',
         formatted_body = ''<https://matrix.to/#/@a:b|A> and <https://matrix.to/#/@c:d|C>'',
         format = ''org.matrix.custom.html''\<rparr>]"
  by (simp add: sendText_def sendMessage_def answering_def new_world_def mention_rx_def
      line_terminator_def)

end
